theory Spec2Isabelle
  imports Complex_Main
begin

section \<open>The Python layer of ALM (src/python/alm/alm.py) over its native engine\<close>

text \<open>
  The class \<open>ALM\<close> is a thin wrapper: it keeps a handful of Python attributes and hands
  every piece of real work to the compiled module \<open>_alm\<close> (imported as \<open>alm\<close>), whose
  source is not part of the Python package. The embedding therefore has three parts:
  \<^item> the Python object, a record with one field per attribute set in \<open>__init__\<close>;
  \<^item> the log of calls made to the native module, kept in the same record (field
    \<open>calls\<close>), so that "no engine call was made" is the statement that the log did not grow;
  \<^item> the answers of the native module, a record \<open>engine\<close> that every operation takes as
    a parameter: whatever the engine returns or writes into a buffer during one call of
    a method of the wrapper.
  A method returns a pair: the value or the exception raised (\<open>Inl\<close>), and the object
  after the call, since Python keeps the assignments made before a \<open>raise\<close>.
\<close>

subsection \<open>Exceptions, values and arrays\<close>

datatype error =
    RuntimeError string
  | ValueError string
  | KeyError string
  | TypeError string
  | IndexError string
  | ZeroDivisionError string
  | OverflowError string

text \<open>Values of the optimizer-control dictionary (booleans, integers, floats, strings, None).\<close>

datatype pyval = PyNone | PyBool bool | PyInt int | PyFloat real | PyStr string

text \<open>
  A numpy array: its shape and its elements in C (row-major) order. \<open>dtype='double'\<close>
  elements are modelled as reals; the wrapper never computes with them, it only moves them.
\<close>

record 'a ndarray =
  shape :: "nat list"
  data :: "'a list"

definition ndim :: "'a ndarray \<Rightarrow> nat" where
  "ndim a = length (shape a)"

text \<open>\<open>len(a)\<close> of an array is its first dimension; a zero-dimensional array has none.\<close>

definition py_len :: "'a ndarray \<Rightarrow> error + nat" where
  "py_len a = (case shape a of
                 [] \<Rightarrow> Inl (TypeError ''len() of unsized object'')
               | n # _ \<Rightarrow> Inr n)"

text \<open>\<open>range(n)\<close> is empty for \<open>n \<le> 0\<close>.\<close>

definition range :: "int \<Rightarrow> int list" where
  "range n = map int [0..<nat n]"

text \<open>
  \<open>np.zeros(n)\<close> and \<open>np.zeros((n, m))\<close>: a negative dimension raises ValueError. (The
  messages of numpy's own errors are shortened here and below.)
\<close>

definition np_zeros :: "int \<Rightarrow> error + ('a::zero) ndarray" where
  "np_zeros n =
     (if n < 0 then Inl (ValueError ''negative dimensions are not allowed'')
      else Inr \<lparr>shape = [nat n], data = replicate (nat n) 0\<rparr>)"

definition np_zeros2 :: "int \<Rightarrow> int \<Rightarrow> error + ('a::zero) ndarray" where
  "np_zeros2 n m =
     (if n < 0 \<or> m < 0 then Inl (ValueError ''negative dimensions are not allowed'')
      else Inr \<lparr>shape = [nat n, nat m], data = replicate (nat n * nat m) 0\<rparr>)"

text \<open>
  The engine writes its output into a buffer allocated by the wrapper. The buffer keeps
  its shape: the elements the engine delivers replace the leading zeros, and what would
  fall beyond the end of the buffer is not part of the array.
\<close>

definition fill :: "'a ndarray \<Rightarrow> 'a list \<Rightarrow> 'a ndarray" where
  "fill buf out = buf\<lparr>data := take (length (data buf)) out @ drop (length out) (data buf)\<rparr>"

text \<open>
  \<open>a.reshape((n, -1))\<close> of a one-dimensional array: \<open>n\<close> must be positive and divide the
  size; every other case raises ValueError.
\<close>

definition reshape_rows :: "'a ndarray \<Rightarrow> int \<Rightarrow> error + 'a ndarray" where
  "reshape_rows a n =
     (if 0 < n \<and> int (length (data a)) mod n = 0
      then Inr \<lparr>shape = [nat n, length (data a) div nat n], data = data a\<rparr>
      else Inl (ValueError ''cannot reshape array''))"

text \<open>
  \<open>np.reshape(a, (n, m), order='F')\<close> of a one-dimensional array of \<open>n * m\<close> elements:
  element \<open>(i, j)\<close> of the result is element \<open>i + j * n\<close> of \<open>a\<close>. The result is given in
  row-major order like every other array here. (A negative \<open>m\<close>, possible only with
  \<open>n = 0\<close>, is refused by numpy; the caller tests it.)
\<close>

definition reshape_F :: "'a ndarray \<Rightarrow> nat \<Rightarrow> nat \<Rightarrow> 'a ndarray" where
  "reshape_F a n m =
     \<lparr>shape = [n, m],
      data = map (\<lambda>k. data a ! (k div m + (k mod m) * n)) [0..<n * m]\<rparr>"

subsection \<open>Strings: \<open>str.lower\<close> and \<open>str.capitalize\<close>\<close>

text \<open>
  On ASCII letters. A character outside ASCII never lowers to a letter of
  \<open>lattice\<close> or \<open>cartesian\<close>, so the comparison in \<open>define\<close> is decided by these.
\<close>

definition lower_char :: "char \<Rightarrow> char" where
  "lower_char c =
     (let n = (of_char c :: nat) in if 65 \<le> n \<and> n \<le> 90 then char_of (n + 32) else c)"

definition upper_char :: "char \<Rightarrow> char" where
  "upper_char c =
     (let n = (of_char c :: nat) in if 97 \<le> n \<and> n \<le> 122 then char_of (n - 32) else c)"

definition lower :: "string \<Rightarrow> string" where
  "lower s = map lower_char s"

definition capitalize :: "string \<Rightarrow> string" where
  "capitalize s = (case s of [] \<Rightarrow> [] | c # cs \<Rightarrow> upper_char c # map lower_char cs)"

subsection \<open>The native module: calls and answers\<close>

text \<open>
  One constructor per function of \<open>_alm\<close> that the wrapper calls, with the arguments it
  passes. The first argument is always \<open>self._id\<close>, which is \<open>None\<close> before \<open>alm_new\<close>.
  Buffers the engine fills are recorded by their shape.
\<close>

datatype engine_call =
    Alm_new
  | Alm_delete "int option"
  | Suggest "int option"
  | Optimize "int option" string
  | Set_output_filename_prefix "int option" string
  | Get_optimizer_control "int option"
  | Set_optimizer_control "int option" "pyval list"
  | Set_training_data "int option" "real ndarray" "real ndarray"
  | Define "int option" int "int list" "real ndarray option" string
  | Generate_force_constant "int option"
  | Set_constraint_type "int option" int
  | Get_atom_mapping_by_pure_translations "int option" "nat list"
  | Get_displacement_patterns "int option" "nat list" "nat list" int
  | Get_fc_origin "int option" "nat list" "nat list"
  | Get_fc_irreducible "int option" "nat list" "nat list"
  | Get_fc_all "int option" "nat list" "nat list"
  | Set_fc "int option" "real list"
  | Get_matrix_elements "int option" "nat list" "nat list"
  | Get_cv_l1_alpha "int option"
  | Set_cell "int option" "real ndarray" "real ndarray" "int ndarray"
  | Set_verbosity "int option" int
  | Get_nrows_amat "int option"
  | Get_number_of_displacement_patterns "int option" int
  | Get_number_of_displaced_atoms "int option" "nat list" int
  | Get_number_of_fc_elements "int option" int
  | Get_number_of_irred_fc_elements "int option" int

text \<open>
  What the engine answers while one method of the wrapper runs. The functions that fill
  a buffer give the elements they write; those that take the order of the force
  constants from the shape of the index buffer (\<open>get_fc_*\<close>) depend on that shape.
\<close>

record engine =
  alm_alm_new :: int
  alm_set_cell :: "int list"
  alm_optimize :: "string \<Rightarrow> int"
  alm_get_optimizer_control :: "pyval list"
  alm_get_atom_mapping_by_pure_translations :: "int \<times> int list"
  alm_get_number_of_displacement_patterns :: "int \<Rightarrow> int"
  alm_get_number_of_displaced_atoms :: "int \<Rightarrow> int list"
  alm_get_displacement_patterns :: "int \<Rightarrow> int \<times> int list \<times> real list"
  alm_get_number_of_fc_elements :: "int \<Rightarrow> int"
  alm_get_number_of_irred_fc_elements :: "int \<Rightarrow> int"
  alm_get_fc_origin :: "nat list \<Rightarrow> real list \<times> int list"
  alm_get_fc_irreducible :: "nat list \<Rightarrow> real list \<times> int list"
  alm_get_fc_all :: "nat list \<Rightarrow> real list \<times> int list"
  alm_get_nrows_amat :: int
  alm_get_matrix_elements :: "real list \<times> real list"
  alm_get_cv_l1_alpha :: real

subsection \<open>The object\<close>

text \<open>
  The attributes of \<open>__init__\<close> (\<open>self._id\<close> is \<open>self_id\<close>, and so on), and the log of
  engine calls. The setters of \<open>lavec\<close>, \<open>xcoord\<close> and \<open>numbers\<close> store \<open>np.array(...)\<close>,
  which is never \<open>None\<close>: the fields are arrays, and the three \<open>is None\<close> tests of
  \<open>_set_cell\<close> have no branch here. The arguments of \<open>init\<close> and of the setters are the
  arrays that \<open>np.array(...)\<close> has made of the caller's arguments.
\<close>

record alm =
  self_id :: "int option"
  self_cell :: "(real ndarray \<times> real ndarray \<times> int ndarray) option"
  self_lavec :: "real ndarray"
  self_xcoord :: "real ndarray"
  self_numbers :: "int ndarray"
  self_verbosity :: int
  self_kind_indices :: "int ndarray option"
  self_iconst :: int
  self_maxorder :: int
  self_output_filename_prefix :: "string option"
  self_need_transfer :: bool
  calls :: "engine_call list"

definition init :: "real ndarray \<Rightarrow> real ndarray \<Rightarrow> int ndarray \<Rightarrow> int \<Rightarrow> alm" where
  "init lavec xcoord numbers verbosity =
     \<lparr>self_id = None, self_cell = None, self_lavec = lavec, self_xcoord = xcoord,
      self_numbers = numbers, self_verbosity = verbosity, self_kind_indices = None,
      self_iconst = 11, self_maxorder = 1, self_output_filename_prefix = None,
      self_need_transfer = True, calls = []\<rparr>"

definition call :: "engine_call \<Rightarrow> alm \<Rightarrow> alm" where
  "call c s = s\<lparr>calls := calls s @ [c]\<rparr>"

definition set_lavec :: "alm \<Rightarrow> real ndarray \<Rightarrow> alm" where
  "set_lavec s lavec = s\<lparr>self_need_transfer := True, self_lavec := lavec\<rparr>"

definition set_xcoord :: "alm \<Rightarrow> real ndarray \<Rightarrow> alm" where
  "set_xcoord s xcoord = s\<lparr>self_need_transfer := True, self_xcoord := xcoord\<rparr>"

definition set_numbers :: "alm \<Rightarrow> int ndarray \<Rightarrow> alm" where
  "set_numbers s numbers = s\<lparr>self_need_transfer := True, self_numbers := numbers\<rparr>"

definition set_verbosity :: "alm \<Rightarrow> int \<Rightarrow> alm" where
  "set_verbosity s verbosity = s\<lparr>self_verbosity := verbosity, self_need_transfer := True\<rparr>"

text \<open>\<open>_show_error_message\<close> raises this.\<close>

definition show_error_message :: error where
  "show_error_message =
     RuntimeError ''This ALM object has to be initialized by ALM::alm_new()''"

text \<open>
  \<open>raise("...")\<close> with a string in place of an exception: Python raises TypeError, and
  the string is lost.
\<close>

definition raise_str :: "string \<Rightarrow> error" where
  "raise_str msg = TypeError ''exceptions must derive from BaseException''"

subsection \<open>Transfer of the structure to the engine\<close>

definition priv_set_cell :: "engine \<Rightarrow> alm \<Rightarrow> (error + unit) \<times> alm" where
  "priv_set_cell eng s =
     (if self_id s = None then (Inl show_error_message, s)
      else case py_len (self_xcoord s) of
        Inl e \<Rightarrow> (Inl e, s)
      | Inr nx \<Rightarrow>
         (case py_len (self_numbers s) of
            Inl e \<Rightarrow> (Inl e, s)
          | Inr nn \<Rightarrow>
             if nx \<noteq> nn
             then (Inl (RuntimeError
                     ''Numbers of atomic points and atomic numbers don't agree.''), s)
             else
               let zeros_like = (self_numbers s)\<lparr>data := replicate (length (data (self_numbers s))) 0\<rparr>;
                   s1 = call (Set_cell (self_id s) (self_lavec s) (self_xcoord s) (self_numbers s)) s
               in (Inr (),
                   s1\<lparr>self_kind_indices := Some (fill zeros_like (alm_set_cell eng)),
                      self_cell := Some (self_lavec s, self_xcoord s, self_numbers s)\<rparr>)))"

definition priv_set_verbosity :: "alm \<Rightarrow> (error + unit) \<times> alm" where
  "priv_set_verbosity s =
     (if self_id s = None then (Inl show_error_message, s)
      else (Inr (), call (Set_verbosity (self_id s) (self_verbosity s)) s))"

definition transfer_parameters :: "engine \<Rightarrow> alm \<Rightarrow> (error + unit) \<times> alm" where
  "transfer_parameters eng s =
     (if self_need_transfer s then
        (case priv_set_cell eng s of
           (Inl e, s1) \<Rightarrow> (Inl e, s1)
         | (Inr _, s1) \<Rightarrow>
            (case priv_set_verbosity s1 of
               (Inl e, s2) \<Rightarrow> (Inl e, s2)
             | (Inr _, s2) \<Rightarrow> (Inr (), s2\<lparr>self_need_transfer := False\<rparr>)))
      else (Inr (), s))"

subsection \<open>Life cycle\<close>

definition alm_new :: "engine \<Rightarrow> alm \<Rightarrow> (error + unit) \<times> alm" where
  "alm_new eng s =
     (if self_id s = None then
        (let s1 = (call Alm_new s)\<lparr>self_id := Some (alm_alm_new eng)\<rparr>
         in if alm_alm_new eng < 0 then (Inl (RuntimeError ''Too many ALM objects''), s1)
            else transfer_parameters eng s1)
      else (Inl (raise_str ''This ALM object is already initialized.''), s))"

definition alm_delete :: "alm \<Rightarrow> (error + unit) \<times> alm" where
  "alm_delete s =
     (if self_id s = None then (Inl show_error_message, s)
      else (Inr (), (call (Alm_delete (self_id s)) s)\<lparr>self_id := None\<rparr>))"

subsection \<open>Suggest, optimize, optimizer control, training data\<close>

definition suggest :: "engine \<Rightarrow> alm \<Rightarrow> (error + unit) \<times> alm" where
  "suggest eng s =
     (if self_id s = None then (Inl show_error_message, s)
      else case transfer_parameters eng s of
        (Inl e, s1) \<Rightarrow> (Inl e, s1)
      | (Inr _, s1) \<Rightarrow> (Inr (), call (Suggest (self_id s1)) s1))"

definition optimize :: "engine \<Rightarrow> alm \<Rightarrow> string \<Rightarrow> (error + int) \<times> alm" where
  "optimize eng s solver =
     (if self_id s = None then (Inl show_error_message, s)
      else case transfer_parameters eng s of
        (Inl e, s1) \<Rightarrow> (Inl e, s1)
      | (Inr _, s1) \<Rightarrow>
         if solver \<noteq> ''dense'' \<and> solver \<noteq> ''SimplicialLDLT''
         then (Inl (ValueError (''The given solver option is not supported.'' @ [CHR 10] @
                 ''Available options are 'dense' and 'SimplicialLDLT'.'')), s1)
         else (Inr (alm_optimize eng solver), call (Optimize (self_id s1) solver) s1))"

text \<open>The setter of \<open>output_filename_prefix\<close>: a prefix that is not a \<open>str\<close> is ignored.\<close>

definition set_output_filename_prefix :: "alm \<Rightarrow> pyval \<Rightarrow> (error + unit) \<times> alm" where
  "set_output_filename_prefix s prefix =
     (if self_id s = None then (Inl show_error_message, s)
      else case prefix of
        PyStr p \<Rightarrow> (Inr (), call (Set_output_filename_prefix (self_id s) p)
                              (s\<lparr>self_output_filename_prefix := Some p\<rparr>))
      | _ \<Rightarrow> (Inr (), s))"

definition optimizer_control_keys :: "string list" where
  "optimizer_control_keys =
     [''linear_model'', ''use_sparse_solver'', ''maxnum_iteration'', ''tolerance_iteration'',
      ''output_frequency'', ''standardize'', ''displacement_normalization_factor'',
      ''debiase_after_l1opt'', ''cross_validation'', ''l1_alpha'', ''l1_alpha_min'',
      ''l1_alpha_max'', ''num_l1_alpha'', ''l1_ratio'', ''save_solution_path'']"

text \<open>The property \<open>optimizer_control\<close>: \<open>dict(zip(keys, optctrl))\<close>, as an association list.\<close>

definition optimizer_control :: "engine \<Rightarrow> alm \<Rightarrow> (error + (string \<times> pyval) list) \<times> alm" where
  "optimizer_control eng s =
     (if self_id s = None then (Inl show_error_message, s)
      else (Inr (zip optimizer_control_keys (alm_get_optimizer_control eng)),
            call (Get_optimizer_control (self_id s)) s))"

text \<open>
  \<open>set_optimizer_control\<close>: the dictionary is an association list in insertion order.
  In \<open>optcontrol_l\<close> a later key wins over an earlier one with the same lower-case form.
\<close>

definition set_optimizer_control ::
  "alm \<Rightarrow> (string \<times> pyval) list \<Rightarrow> (error + unit) \<times> alm" where
  "set_optimizer_control s optcontrol =
     (if self_id s = None then (Inl show_error_message, s)
      else
        let optcontrol_l = map_of (rev (map (\<lambda>(key, v). (lower key, v)) optcontrol))
        in case find (\<lambda>key. lower key \<notin> set optimizer_control_keys) (map fst optcontrol) of
             Some key \<Rightarrow>
               (Inl (KeyError (key @ '' is not a valide key for optimizer control.'')), s)
           | None \<Rightarrow>
               let optctrl = map (\<lambda>key. case optcontrol_l key of Some v \<Rightarrow> v | None \<Rightarrow> PyNone)
                                 optimizer_control_keys
               in (Inr (), call (Set_optimizer_control (self_id s) optctrl) s))"

definition set_training_data ::
  "alm \<Rightarrow> real ndarray \<Rightarrow> real ndarray \<Rightarrow> (error + unit) \<times> alm" where
  "set_training_data s u f =
     (if self_id s = None then (Inl show_error_message, s)
      else if ndim u \<noteq> 3
      then (Inl (RuntimeError ''Displacement array has to be three dimensions.''), s)
      else if ndim f \<noteq> 3
      then (Inl (RuntimeError ''Force array has to be three dimensions.''), s)
      else (Inr (), call (Set_training_data (self_id s) u f) s))"

subsection \<open>\<open>define\<close>\<close>

text \<open>
  \<open>int(round(np.sqrt(q)))\<close> for an integer \<open>q \<ge> 0\<close>, computed on integers: \<open>isqrt q\<close> is the
  integer part of the square root, and the root is nearer to \<open>isqrt q + 1\<close> exactly when
  \<open>q\<close> exceeds \<open>r\<^sup>2 + r\<close>. (The root of an integer is never half-way between two integers.)
\<close>

fun isqrt :: "nat \<Rightarrow> nat" where
  "isqrt 0 = 0"
| "isqrt (Suc n) = (let r = isqrt n in if (r + 1) * (r + 1) \<le> Suc n then r + 1 else r)"

definition round_sqrt :: "nat \<Rightarrow> nat" where
  "round_sqrt q = (let r = isqrt q in if q - r * r \<le> r then r else r + 1)"

text \<open>Lines 409 to 417 of \<open>define\<close>: the default of \<open>nbody\<close> and the test of its length.\<close>

definition define_nbody :: "int \<Rightarrow> int list option \<Rightarrow> error + int list" where
  "define_nbody maxorder nbody =
     (case nbody of
        None \<Rightarrow> Inr (map (\<lambda>i. i + 2) (range maxorder))
      | Some nb \<Rightarrow>
          if int (length nb) \<noteq> maxorder
          then Inl (RuntimeError ''The size of nbody must be equal to maxorder.'')
          else Inr nb)"

text \<open>
  Lines 419 to 432 of \<open>define\<close>: the tests on \<open>cutoff_radii\<close> and its reshaping.
  \<open>nelem // maxorder\<close> raises ZeroDivisionError for \<open>maxorder = 0\<close>; for a negative
  \<open>maxorder\<close> the quotient is negative or zero, and then either the square root is not a
  number, which \<open>round\<close> refuses, or the shape has a negative dimension: ValueError in
  both cases.
\<close>

definition define_cutoff_radii ::
  "int \<Rightarrow> real ndarray option \<Rightarrow> error + real ndarray option" where
  "define_cutoff_radii maxorder cutoff_radii =
     (case cutoff_radii of
        None \<Rightarrow> Inr None
      | Some a \<Rightarrow>
          let nelem = int (length (data a)) in
          if maxorder = 0 then Inl (ZeroDivisionError ''integer division or modulo by zero'')
          else if (nelem div maxorder) * maxorder \<noteq> nelem
          then Inl (RuntimeError ''The array shape of cutoff_radii is wrong.'')
          else if nelem div maxorder < 0
          then Inl (ValueError ''cannot convert float NaN to integer'')
          else
            let nkd = round_sqrt (nat (nelem div maxorder)) in
            if int (nkd ^ 2) - nelem div maxorder \<noteq> 0
            then Inl (RuntimeError ''The array shape of cutoff_radii is wrong.'')
            else if maxorder < 0
            then Inl (ValueError ''cannot reshape array'')
            else Inr (Some \<lparr>shape = [nat maxorder, nkd, nkd], data = data a\<rparr>))"

text \<open>
  \<open>np.array(nbody, dtype='intc')\<close>, an argument of the call of \<open>alm.define\<close> (line 443):
  every entry has to fit a C \<open>int\<close> of 32 bits. For an entry that does not, numpy 2
  raises OverflowError, and so does the model (older releases of numpy wrapped the
  value around instead; the two agree on lists whose entries fit).
\<close>

definition np_array_intc :: "int list \<Rightarrow> error + int list" where
  "np_array_intc xs =
     (if list_all (\<lambda>x. - 2147483648 \<le> x \<and> x < 2147483648) xs then Inr xs
      else Inl (OverflowError ''Python integer out of bounds for int32''))"

text \<open>
  Lines 436 to 439 of \<open>define\<close>: the name of the basis handed to the engine.
  \<open>symmetrization_basis.lower() in ['lattice', 'cartesian']\<close> is the test.
\<close>

definition fc_basis :: "string \<Rightarrow> string" where
  "fc_basis symmetrization_basis =
     (if lower symmetrization_basis = ''lattice'' \<or> lower symmetrization_basis = ''cartesian''
      then capitalize symmetrization_basis
      else ''Lattice'')"

text \<open>The method \<open>define\<close> (the name is a keyword of Isabelle, hence \<open>define_alm\<close>).\<close>

definition define_alm ::
  "engine \<Rightarrow> alm \<Rightarrow> int \<Rightarrow> real ndarray option \<Rightarrow> int list option \<Rightarrow> string
     \<Rightarrow> (error + unit) \<times> alm" where
  "define_alm eng s maxorder cutoff_radii nbody symmetrization_basis =
     (if self_id s = None then (Inl show_error_message, s)
      else case transfer_parameters eng s of
        (Inl e, s1) \<Rightarrow> (Inl e, s1)
      | (Inr _, s1) \<Rightarrow>
         (case define_nbody maxorder nbody of
            Inl e \<Rightarrow> (Inl e, s1)
          | Inr nbody1 \<Rightarrow>
             (case define_cutoff_radii maxorder cutoff_radii of
                Inl e \<Rightarrow> (Inl e, s1)
              | Inr cutoff_radii1 \<Rightarrow>
                 let s2 = s1\<lparr>self_maxorder := maxorder\<rparr>
                 in (case np_array_intc nbody1 of
                       Inl e \<Rightarrow> (Inl e, s2)
                     | Inr nbody2 \<Rightarrow>
                        let s3 = call (Define (self_id s2) maxorder nbody2 cutoff_radii1
                                         (fc_basis symmetrization_basis)) s2
                        in (Inr (), call (Generate_force_constant (self_id s3)) s3)))))"

subsection \<open>\<open>set_constraint\<close> and the atom map\<close>

text \<open>
  \<open>set_constraint\<close> has no test of \<open>self._id\<close>. Its arguments are booleans, for which
  \<open>x is True\<close> is \<open>x\<close>.
\<close>

definition set_constraint :: "alm \<Rightarrow> bool \<Rightarrow> bool \<Rightarrow> (error + unit) \<times> alm" where
  "set_constraint s translation rotation =
     (if rotation then (Inl (raise_str ''Rotational invariance is not supported in API.''), s)
      else
        let iconst = (if translation then 11 else 10);
            s1 = s\<lparr>self_iconst := iconst\<rparr>
        in (Inr (), call (Set_constraint_type (self_id s1) (self_iconst s1)) s1))"

definition getmap_primitive_to_supercell ::
  "engine \<Rightarrow> alm \<Rightarrow> (error + int ndarray) \<times> alm" where
  "getmap_primitive_to_supercell eng s =
     (if self_id s = None then (Inl show_error_message, s)
      else case py_len (self_xcoord s) of
        Inl e \<Rightarrow> (Inl e, s)
      | Inr n \<Rightarrow>
         (case np_zeros (int n) of
            Inl e \<Rightarrow> (Inl e, s)
          | Inr zeros \<Rightarrow>
             let s1 = call (Get_atom_mapping_by_pure_translations (self_id s) (shape zeros)) s;
                 ntrans = fst (alm_get_atom_mapping_by_pure_translations eng);
                 map_p2s = fill zeros (snd (alm_get_atom_mapping_by_pure_translations eng))
             in (case reshape_rows map_p2s ntrans of
                   Inl e \<Rightarrow> (Inl e, s1)
                 | Inr a \<Rightarrow> (Inr a, s1))))"

subsection \<open>Private queries\<close>

definition get_nrows_amat :: "engine \<Rightarrow> alm \<Rightarrow> (error + int) \<times> alm" where
  "get_nrows_amat eng s =
     (if self_id s = None then (Inl show_error_message, s)
      else (Inr (alm_get_nrows_amat eng), call (Get_nrows_amat (self_id s)) s))"

definition get_number_of_displacement_patterns :: "engine \<Rightarrow> alm \<Rightarrow> int \<Rightarrow> int \<times> alm" where
  "get_number_of_displacement_patterns eng s fc_order =
     (alm_get_number_of_displacement_patterns eng fc_order,
      call (Get_number_of_displacement_patterns (self_id s) fc_order) s)"

definition get_number_of_displaced_atoms ::
  "engine \<Rightarrow> alm \<Rightarrow> int \<Rightarrow> (error + int ndarray) \<times> alm" where
  "get_number_of_displaced_atoms eng s fc_order =
     (let (num_disp_patterns, s1) = get_number_of_displacement_patterns eng s fc_order
      in case np_zeros num_disp_patterns of
           Inl e \<Rightarrow> (Inl e, s1)
         | Inr numbers \<Rightarrow>
            (Inr (fill numbers (alm_get_number_of_displaced_atoms eng fc_order)),
             call (Get_number_of_displaced_atoms (self_id s1) (shape numbers) fc_order) s1))"

definition get_number_of_fc_elements :: "engine \<Rightarrow> alm \<Rightarrow> int \<Rightarrow> int \<times> alm" where
  "get_number_of_fc_elements eng s fc_order =
     (alm_get_number_of_fc_elements eng fc_order,
      call (Get_number_of_fc_elements (self_id s) fc_order) s)"

definition get_number_of_irred_fc_elements :: "engine \<Rightarrow> alm \<Rightarrow> int \<Rightarrow> int \<times> alm" where
  "get_number_of_irred_fc_elements eng s fc_order =
     (alm_get_number_of_irred_fc_elements eng fc_order,
      call (Get_number_of_irred_fc_elements (self_id s) fc_order) s)"

text \<open>
  The loop of \<open>set_fc\<close> and \<open>get_matrix_elements\<close>:
  \<^verbatim>\<open>for i in range(maxorder): fc_length += self._get_number_of_irred_fc_elements(i + 1)\<close>
\<close>

fun fc_length_loop :: "engine \<Rightarrow> int list \<Rightarrow> int \<Rightarrow> alm \<Rightarrow> int \<times> alm" where
  "fc_length_loop eng [] fc_length s = (fc_length, s)"
| "fc_length_loop eng (i # is) fc_length s =
     (let (n, s1) = get_number_of_irred_fc_elements eng s (i + 1)
      in fc_length_loop eng is (fc_length + n) s1)"

subsection \<open>Displacement patterns\<close>

text \<open>Indexing a Python list: a negative index counts from the end.\<close>

definition py_index :: "'a list \<Rightarrow> int \<Rightarrow> error + 'a" where
  "py_index xs i =
     (if 0 \<le> i \<and> i < int (length xs) then Inr (xs ! nat i)
      else if i < 0 \<and> - int (length xs) \<le> i then Inr (xs ! nat (int (length xs) + i))
      else Inl (IndexError ''list index out of range''))"

text \<open>
  The inner loop \<open>for i in range(num)\<close>: it reads \<open>atom_indices[pos]\<close> and the row
  \<open>disp_patterns[pos]\<close>, and advances \<open>pos\<close>. The outer loop runs over \<open>numbers\<close>.
\<close>

fun disp_loop ::
  "int list \<Rightarrow> real list \<Rightarrow> string \<Rightarrow> nat \<Rightarrow> nat
     \<Rightarrow> error + (int \<times> real list \<times> string) list \<times> nat" where
  "disp_loop atom_indices disp_patterns basis pos 0 = Inr ([], pos)"
| "disp_loop atom_indices disp_patterns basis pos (Suc k) =
     (if length atom_indices \<le> pos
      then Inl (IndexError ''index out of bounds'')
      else case disp_loop atom_indices disp_patterns basis (pos + 1) k of
             Inl e \<Rightarrow> Inl e
           | Inr (disp, pos1) \<Rightarrow>
               Inr ((atom_indices ! pos, take 3 (drop (3 * pos) disp_patterns), basis) # disp,
                    pos1))"

fun all_disps_loop ::
  "int list \<Rightarrow> real list \<Rightarrow> string \<Rightarrow> int list \<Rightarrow> nat
     \<Rightarrow> error + (int \<times> real list \<times> string) list list" where
  "all_disps_loop atom_indices disp_patterns basis [] pos = Inr []"
| "all_disps_loop atom_indices disp_patterns basis (num # nums) pos =
     (case disp_loop atom_indices disp_patterns basis pos (nat num) of
        Inl e \<Rightarrow> Inl e
      | Inr (disp, pos1) \<Rightarrow>
         (case all_disps_loop atom_indices disp_patterns basis nums pos1 of
            Inl e \<Rightarrow> Inl e
          | Inr all_disps \<Rightarrow> Inr (disp # all_disps)))"

definition get_displacement_patterns ::
  "engine \<Rightarrow> alm \<Rightarrow> int \<Rightarrow> (error + (int \<times> real list \<times> string) list list) \<times> alm" where
  "get_displacement_patterns eng s fc_order =
     (if self_id s = None then (Inl show_error_message, s)
      else if fc_order > self_maxorder s
      then (Inl (ValueError
              ''The fc_order must not be larger than the maximum order (maxorder).''), s)
      else case get_number_of_displaced_atoms eng s fc_order of
        (Inl e, s1) \<Rightarrow> (Inl e, s1)
      | (Inr numbers, s1) \<Rightarrow>
         (let tot_num = sum_list (data numbers) in
          case np_zeros tot_num of
            Inl e \<Rightarrow> (Inl e, s1)
          | Inr atom_indices0 \<Rightarrow>
             (case np_zeros2 tot_num 3 of
                Inl e \<Rightarrow> (Inl e, s1)
              | Inr disp_patterns0 \<Rightarrow>
                 (let (nbasis, ai, dp) = alm_get_displacement_patterns eng fc_order;
                      atom_indices = fill atom_indices0 ai;
                      disp_patterns = fill disp_patterns0 dp;
                      s2 = call (Get_displacement_patterns (self_id s1) (shape atom_indices0)
                                   (shape disp_patterns0) fc_order) s1
                  in case py_index [''Cartesian'', ''Fractional''] nbasis of
                       Inl e \<Rightarrow> (Inl e, s2)
                     | Inr basis \<Rightarrow>
                        (case all_disps_loop (data atom_indices) (data disp_patterns) basis
                                (data numbers) 0 of
                           Inl e \<Rightarrow> (Inl e, s2)
                         | Inr all_disps \<Rightarrow> (Inr all_disps, s2))))))"

subsection \<open>Force constants\<close>

text \<open>
  The two buffers of \<open>get_fc\<close>: \<open>np.zeros(fc_length)\<close> and
  \<open>np.zeros((fc_length, fc_order + 1))\<close>, allocated in this order.
\<close>

definition fc_buffers :: "int \<Rightarrow> int \<Rightarrow> error + real ndarray \<times> int ndarray" where
  "fc_buffers fc_length fc_order =
     (case np_zeros fc_length of
        Inl e \<Rightarrow> Inl e
      | Inr fc_values \<Rightarrow>
         (case np_zeros2 fc_length (fc_order + 1) of
            Inl e \<Rightarrow> Inl e
          | Inr elem_indices \<Rightarrow> Inr (fc_values, elem_indices)))"

definition get_fc ::
  "engine \<Rightarrow> alm \<Rightarrow> int \<Rightarrow> string \<Rightarrow> (error + real ndarray \<times> int ndarray) \<times> alm" where
  "get_fc eng s fc_order mode =
     (if self_id s = None then (Inl show_error_message, s)
      else if fc_order > self_maxorder s
      then (Inl (ValueError
              ''The fc_order must not be larger than the maximum order (maxorder).''), s)
      else if mode = ''origin'' then
        (let (fc_length, s1) = get_number_of_fc_elements eng s fc_order
         in case fc_buffers fc_length fc_order of
              Inl e \<Rightarrow> (Inl e, s1)
            | Inr (fc_values, elem_indices) \<Rightarrow>
               (let out = alm_get_fc_origin eng (shape elem_indices)
                in (Inr (fill fc_values (fst out), fill elem_indices (snd out)),
                    call (Get_fc_origin (self_id s1) (shape fc_values) (shape elem_indices)) s1)))
      else if mode = ''irreducible'' \<or> mode = ''irred'' then
        (let (fc_length, s1) = get_number_of_irred_fc_elements eng s fc_order
         in case fc_buffers fc_length fc_order of
              Inl e \<Rightarrow> (Inl e, s1)
            | Inr (fc_values, elem_indices) \<Rightarrow>
               (let out = alm_get_fc_irreducible eng (shape elem_indices)
                in (Inr (fill fc_values (fst out), fill elem_indices (snd out)),
                    call (Get_fc_irreducible (self_id s1) (shape fc_values)
                            (shape elem_indices)) s1)))
      else if mode = ''all'' then
        (case py_len (self_xcoord s) of
           Inl e \<Rightarrow> (Inl e, s)
         | Inr n \<Rightarrow>
            (case (np_zeros (int n) :: error + int ndarray) of
               Inl e \<Rightarrow> (Inl e, s)
             | Inr map_p2s \<Rightarrow>
                (let s1 = call (Get_atom_mapping_by_pure_translations (self_id s)
                                  (shape map_p2s)) s;
                     ntrans = fst (alm_get_atom_mapping_by_pure_translations eng);
                     (n_fc, s2) = get_number_of_fc_elements eng s1 fc_order;
                     fc_length = n_fc * ntrans
                 in case fc_buffers fc_length fc_order of
                      Inl e \<Rightarrow> (Inl e, s2)
                    | Inr (fc_values, elem_indices) \<Rightarrow>
                       (let out = alm_get_fc_all eng (shape elem_indices)
                        in (Inr (fill fc_values (fst out), fill elem_indices (snd out)),
                            call (Get_fc_all (self_id s2) (shape fc_values)
                                    (shape elem_indices)) s2)))))
      else (Inl (ValueError ''Invalid mode in get_fc.''), s))"

definition set_fc :: "engine \<Rightarrow> alm \<Rightarrow> real list \<Rightarrow> (error + unit) \<times> alm" where
  "set_fc eng s fc_in =
     (if self_id s = None then (Inl show_error_message, s)
      else
        let maxorder = self_maxorder s;
            (fc_length_irred, s1) = fc_length_loop eng (range maxorder) 0 s
        in if fc_length_irred \<noteq> int (length fc_in)
           then (Inl (RuntimeError
                   ''The size of the given force constant array is incorrect.''), s1)
           else (Inr (), call (Set_fc (self_id s1) fc_in) s1))"

definition get_matrix_elements ::
  "engine \<Rightarrow> alm \<Rightarrow> (error + real ndarray \<times> real ndarray) \<times> alm" where
  "get_matrix_elements eng s =
     (if self_id s = None then (Inl show_error_message, s)
      else
        let maxorder = self_maxorder s in
        case get_nrows_amat eng s of
          (Inl e, s1) \<Rightarrow> (Inl e, s1)
        | (Inr nrows, s1) \<Rightarrow>
           (let (fc_length, s2) = fc_length_loop eng (range maxorder) 0 s1
            in case np_zeros (nrows * fc_length) of
                 Inl e \<Rightarrow> (Inl e, s2)
               | Inr amat0 \<Rightarrow>
                  (case np_zeros nrows of
                     Inl e \<Rightarrow> (Inl e, s2)
                   | Inr bvec0 \<Rightarrow>
                      (let out = alm_get_matrix_elements eng;
                           amat = fill amat0 (fst out);
                           bvec = fill bvec0 (snd out);
                           s3 = call (Get_matrix_elements (self_id s2) (shape amat0)
                                        (shape bvec0)) s2
                       in if fc_length < 0
                          then (Inl (ValueError ''cannot reshape array''), s3)
                          else (Inr (reshape_F amat (nat nrows) (nat fc_length), bvec), s3)))))"

definition get_cv_l1_alpha :: "engine \<Rightarrow> alm \<Rightarrow> (error + real) \<times> alm" where
  "get_cv_l1_alpha eng s =
     (if self_id s = None then (Inl show_error_message, s)
      else (Inr (alm_get_cv_l1_alpha eng), call (Get_cv_l1_alpha (self_id s)) s))"

subsection \<open>A small instance\<close>

text \<open>
  Two atoms of one species in a cubic cell, at the corner and at the centre, and an engine
  that answers as for this structure: two pure translations, one atom in the primitive
  cell, one harmonic force constant.
\<close>

definition ex_lavec :: "real ndarray" where
  "ex_lavec = \<lparr>shape = [3, 3], data = [1, 0, 0, 0, 1, 0, 0, 0, 1]\<rparr>"

definition ex_xcoord :: "real ndarray" where
  "ex_xcoord = \<lparr>shape = [2, 3], data = [0, 0, 0, 1 / 2, 1 / 2, 1 / 2]\<rparr>"

definition ex_numbers :: "int ndarray" where
  "ex_numbers = \<lparr>shape = [2], data = [14, 14]\<rparr>"

definition ex_engine :: engine where
  "ex_engine =
     \<lparr>alm_alm_new = 0,
      alm_set_cell = [1, 1],
      alm_optimize = (\<lambda>solver. 0),
      alm_get_optimizer_control = [],
      alm_get_atom_mapping_by_pure_translations = (2, [0, 1]),
      alm_get_number_of_displacement_patterns = (\<lambda>fc_order. 1),
      alm_get_number_of_displaced_atoms = (\<lambda>fc_order. [1]),
      alm_get_displacement_patterns = (\<lambda>fc_order. (0, [0], [1, 0, 0])),
      alm_get_number_of_fc_elements = (\<lambda>fc_order. 1),
      alm_get_number_of_irred_fc_elements = (\<lambda>fc_order. 1),
      alm_get_fc_origin = (\<lambda>sh. ([1], [0, 0])),
      alm_get_fc_irreducible = (\<lambda>sh. ([1], [0, 0])),
      alm_get_fc_all = (\<lambda>sh. ([1, 1], [0, 0, 3, 3])),
      alm_get_nrows_amat = 0,
      alm_get_matrix_elements = ([], []),
      alm_get_cv_l1_alpha = 0\<rparr>"

text \<open>The object before \<open>alm_new\<close>, and after it (as inside a \<open>with\<close> block).\<close>

definition ex_fresh :: alm where
  "ex_fresh = init ex_lavec ex_xcoord ex_numbers 0"

definition ex_alm :: alm where
  "ex_alm = snd (alm_new ex_engine ex_fresh)"

text \<open>
  Training data: three atoms and two components per sample (which does not fit a
  structure of two atoms), a flat array, and an array of the right shape.
\<close>

definition ex_u_bad :: "real ndarray" where
  "ex_u_bad = \<lparr>shape = [1, 3, 2], data = [0, 0, 0, 0, 0, 0]\<rparr>"

definition ex_u_flat :: "real ndarray" where
  "ex_u_flat = \<lparr>shape = [6], data = [0, 0, 0, 0, 0, 0]\<rparr>"

definition ex_u :: "real ndarray" where
  "ex_u = \<lparr>shape = [1, 2, 3], data = [0, 0, 0, 0, 0, 0]\<rparr>"

text \<open>
  The same object after \<open>alm.verbosity = 1\<close>, which sets \<open>self._need_transfer\<close>; and three
  arguments for \<open>cutoff_radii\<close>: an empty one, one of four elements and one of two.
\<close>

definition ex_pending :: alm where
  "ex_pending = set_verbosity ex_alm 1"

definition ex_cutoff_empty :: "real ndarray" where
  "ex_cutoff_empty = \<lparr>shape = [0], data = []\<rparr>"

definition ex_cutoff_4 :: "real ndarray" where
  "ex_cutoff_4 = \<lparr>shape = [4], data = [- 1, 5, 5, 5]\<rparr>"

definition ex_cutoff_2 :: "real ndarray" where
  "ex_cutoff_2 = \<lparr>shape = [2], data = [- 1, 73 / 10]\<rparr>"

subsection \<open>The force-constant tables of the engine, from the specification\<close>

text \<open>
  Modelled from the spec: the state of the native engine that \<open>get_fc_origin\<close>,
  \<open>get_fc_all\<close>, \<open>get_number_of_fc_elements\<close> and
  \<open>get_atom_mapping_by_pure_translations\<close> read, whose code is not in the Python
  package. The pure translations of the symmetry group are given by their atom
  permutations ("a (rotation matrix, translation vector, atom permutation) triple");
  their number is \<open>ntrans\<close>. The origin set of an order holds each coefficient "paired
  with its flattened cluster index (atom \<times> 3 + Cartesian-direction, per cluster member)",
  a tuple of "length = expansion order + 1".
\<close>

record fc_tables =
  pure_translations :: "(int \<Rightarrow> int) list"
  primitive_atoms :: "int list"
  fc_origin_set :: "int \<Rightarrow> (real \<times> int list) list"

text \<open>
  Modelled from the spec: the action of a translation of the engine on a flattened index
  "atom \<times> 3 + Cartesian-direction": the atom is permuted, the direction is kept.
\<close>

definition translate_index :: "(int \<Rightarrow> int) \<Rightarrow> int \<Rightarrow> int" where
  "translate_index p i = 3 * p (i div 3) + i mod 3"

text \<open>
  Modelled from the spec: the set "all" of the engine's force-constant mapper, the "full
  supercell expansion (origin set replicated through every primitive-cell translation)":
  one translated copy of the origin set for each pure translation.
\<close>

definition expand_fc ::
  "(int \<Rightarrow> int) list \<Rightarrow> (real \<times> int list) list \<Rightarrow> (real \<times> int list) list" where
  "expand_fc ps origin =
     concat (map (\<lambda>p. map (\<lambda>(v, idx). (v, map (translate_index p) idx)) origin) ps)"

text \<open>
  Modelled from the spec: what the engine writes into the two buffers of \<open>get_fc\<close>, the
  values and the index tuples row after row.
\<close>

definition fc_arrays :: "(real \<times> int list) list \<Rightarrow> real list \<times> int list" where
  "fc_arrays fcs = (map fst fcs, concat (map snd fcs))"

text \<open>
  Modelled from the spec: the answers of the engine of \<open>_alm\<close> on force constants and on
  the atom map, over the tables above. The wrapper does not pass the order to
  \<open>get_fc_origin\<close> and \<open>get_fc_all\<close>: the engine has only the buffers, whose second
  dimension is the order plus one. The atom map is "an (ntrans \<times>
  atoms-per-primitive-cell) table", one row for each translation. The other answers are
  those of \<open>eng\<close>.
\<close>

definition spec_engine :: "fc_tables \<Rightarrow> engine \<Rightarrow> engine" where
  "spec_engine m eng =
     eng\<lparr>alm_get_atom_mapping_by_pure_translations :=
           (int (length (pure_translations m)),
            concat (map (\<lambda>p. map p (primitive_atoms m)) (pure_translations m))),
         alm_get_number_of_fc_elements := (\<lambda>fc_order. int (length (fc_origin_set m fc_order))),
         alm_get_fc_origin :=
           (\<lambda>sh. fc_arrays (fc_origin_set m (int (sh ! 1) - 1))),
         alm_get_fc_all :=
           (\<lambda>sh. fc_arrays (expand_fc (pure_translations m) (fc_origin_set m (int (sh ! 1) - 1))))\<rparr>"

text \<open>
  The expansion of the arrays that \<open>get_fc(order, "origin")\<close> returns, through a list
  of translations: the values are repeated, the indices are translated.
\<close>

definition expand_values :: "(int \<Rightarrow> int) list \<Rightarrow> real list \<Rightarrow> real list" where
  "expand_values ps vals = concat (map (\<lambda>p. vals) ps)"

definition expand_indices :: "(int \<Rightarrow> int) list \<Rightarrow> int list \<Rightarrow> int list" where
  "expand_indices ps idx = concat (map (\<lambda>p. map (translate_index p) idx) ps)"

text \<open>
  Tables for the small instance: the identity and the translation that exchanges the two
  atoms; one atom in the primitive cell; two harmonic force constants at the origin.
\<close>

definition ex_tables :: fc_tables where
  "ex_tables =
     \<lparr>pure_translations = [\<lambda>a. a, \<lambda>a. (a + 1) mod 2],
      primitive_atoms = [0],
      fc_origin_set = (\<lambda>fc_order. if fc_order = 1 then [(- 5 / 2, [0, 0]), (1, [0, 3])] else [])\<rparr>"

text \<open>
  The object after the structure was replaced through the setters by one of three atoms,
  with no call of \<open>define\<close>, \<open>suggest\<close> or \<open>optimize\<close> since: the engine still holds the
  structure of two atoms.
\<close>

definition ex_xcoord3 :: "real ndarray" where
  "ex_xcoord3 = \<lparr>shape = [3, 3], data = [0, 0, 0, 1 / 3, 1 / 3, 1 / 3, 2 / 3, 2 / 3, 2 / 3]\<rparr>"

definition ex_numbers3 :: "int ndarray" where
  "ex_numbers3 = \<lparr>shape = [3], data = [14, 14, 14]\<rparr>"

definition ex_moved :: alm where
  "ex_moved = set_numbers (set_xcoord ex_alm ex_xcoord3) ex_numbers3"

section \<open>Properties\<close>

lemma ex_alm_eq:
  "ex_alm = \<lparr>self_id = Some 0, self_cell = Some (ex_lavec, ex_xcoord, ex_numbers),
      self_lavec = ex_lavec, self_xcoord = ex_xcoord,
      self_numbers = ex_numbers, self_verbosity = 0,
      self_kind_indices = Some \<lparr>shape = [2], data = [1, 1]\<rparr>,
      self_iconst = 11, self_maxorder = 1, self_output_filename_prefix = None,
      self_need_transfer = False,
      calls = [Alm_new, Set_cell (Some 0) ex_lavec ex_xcoord ex_numbers,
               Set_verbosity (Some 0) 0]\<rparr>"
  by (simp add: ex_alm_def ex_fresh_def init_def alm_new_def call_def transfer_parameters_def
      priv_set_cell_def priv_set_verbosity_def py_len_def ex_engine_def ex_xcoord_def
      ex_numbers_def fill_def)

subsection \<open>An order above \<open>maxorder\<close>\<close>

text \<open>
  Claim C1. On an initialized object, \<open>get_displacement_patterns(fc_order)\<close> and
  \<open>get_fc(fc_order, mode)\<close> with \<open>fc_order\<close> larger than \<open>self._maxorder\<close> raise
  ValueError, whatever the engine and the mode. The object returned is the object given:
  no attribute has changed and the log of engine calls has not grown, so the error comes
  before any query and nothing is returned.
\<close>

theorem order_above_maxorder_raises:
  assumes "self_id s \<noteq> None" and "self_maxorder s < fc_order"
  shows "get_displacement_patterns eng s fc_order =
           (Inl (ValueError
              ''The fc_order must not be larger than the maximum order (maxorder).''), s)
       \<and> get_fc eng s fc_order mode =
           (Inl (ValueError
              ''The fc_order must not be larger than the maximum order (maxorder).''), s)"
  using assms by (auto simp add: get_displacement_patterns_def get_fc_def)

theorem order_above_maxorder_raises_witness:
  "self_id ex_alm \<noteq> None \<and> self_maxorder ex_alm < 2
   \<and> get_displacement_patterns ex_engine ex_alm 2 =
         (Inl (ValueError
            ''The fc_order must not be larger than the maximum order (maxorder).''), ex_alm)
   \<and> get_fc ex_engine ex_alm 2 ''all'' =
         (Inl (ValueError
            ''The fc_order must not be larger than the maximum order (maxorder).''), ex_alm)"
proof -
  have a: "self_id ex_alm \<noteq> None" by (simp add: ex_alm_eq)
  have b: "self_maxorder ex_alm < 2" by (simp add: ex_alm_eq)
  from order_above_maxorder_raises [OF a b, of ex_engine "''all''"] a b
  show ?thesis by simp
qed

subsection \<open>Rotational invariance\<close>

text \<open>
  Claim C2. \<open>set_constraint\<close> with \<open>rotation=True\<close> executes
  \<open>raise("Rotational invariance is not supported in API.")\<close>. The operand of \<open>raise\<close> is a
  string, so what is raised is TypeError with Python's own message; the text about
  rotational invariance does not reach the caller. The object is returned as given: the
  constraint type and the log of engine calls are untouched.
\<close>

theorem set_constraint_rotation_raises_type_error:
  "set_constraint s translation True =
     (Inl (TypeError ''exceptions must derive from BaseException''), s)"
  by (simp add: set_constraint_def raise_str_def)

subsection \<open>Operations on an object without engine instance\<close>

text \<open>
  With \<open>self._id\<close> equal to \<open>None\<close> (before \<open>alm_new\<close>, and again after \<open>alm_delete\<close>) every
  method that starts with the test of \<open>self._id\<close> raises the error of
  \<open>_show_error_message\<close> and leaves the object and the log as they were.
\<close>

lemma uninitialized_operations_raise:
  assumes "self_id s = None"
  shows "suggest eng s = (Inl show_error_message, s)"
    and "optimize eng s solver = (Inl show_error_message, s)"
    and "define_alm eng s maxorder cutoff_radii nbody basis = (Inl show_error_message, s)"
    and "set_training_data s u f = (Inl show_error_message, s)"
    and "getmap_primitive_to_supercell eng s = (Inl show_error_message, s)"
    and "get_displacement_patterns eng s fc_order = (Inl show_error_message, s)"
    and "get_fc eng s fc_order mode = (Inl show_error_message, s)"
    and "set_fc eng s fc_in = (Inl show_error_message, s)"
    and "get_matrix_elements eng s = (Inl show_error_message, s)"
    and "get_cv_l1_alpha eng s = (Inl show_error_message, s)"
    and "optimizer_control eng s = (Inl show_error_message, s)"
    and "set_optimizer_control s optcontrol = (Inl show_error_message, s)"
    and "set_output_filename_prefix s prefix = (Inl show_error_message, s)"
    and "alm_delete s = (Inl show_error_message, s)"
  using assms
  by (simp_all add: suggest_def optimize_def define_alm_def set_training_data_def
      getmap_primitive_to_supercell_def get_displacement_patterns_def get_fc_def set_fc_def
      get_matrix_elements_def get_cv_l1_alpha_def optimizer_control_def
      set_optimizer_control_def set_output_filename_prefix_def alm_delete_def)

lemma alm_delete_uninitializes: "self_id (snd (alm_delete s)) = None"
  by (simp add: alm_delete_def call_def)

text \<open>\<open>set_constraint\<close> is the exception: it has no such test.\<close>

lemma set_constraint_uninitialized:
  "self_id s = None \<Longrightarrow>
   set_constraint s translation False =
     (Inr (), s\<lparr>self_iconst := (if translation then 11 else 10),
                calls := calls s @ [Set_constraint_type None (if translation then 11 else 10)]\<rparr>)"
  by (simp add: set_constraint_def call_def)

text \<open>
  Claim C4. On the object as \<open>__init__\<close> leaves it, \<open>set_constraint(True, False)\<close> does
  not raise: it stores the constraint type 11 and calls \<open>alm.set_constraint_type\<close> with
  \<open>None\<close> for the instance.
\<close>

theorem set_constraint_before_alm_new:
  "self_id ex_fresh = None \<and>
   set_constraint ex_fresh True False =
     (Inr (), ex_fresh\<lparr>self_iconst := 11, calls := [Set_constraint_type None 11]\<rparr>)"
  by (simp add: set_constraint_def ex_fresh_def init_def call_def)

subsection \<open>Training data\<close>

text \<open>
  Claim C5, as stated, fails: arrays of three dimensions whose second and third
  dimensions do not fit the structure are handed to the engine by the wrapper, which
  raises nothing.
\<close>

theorem set_training_data_shape_counterexample:
  "self_id ex_alm \<noteq> None \<and> py_len (self_xcoord ex_alm) = Inr 2 \<and> shape ex_u_bad = [1, 3, 2]
   \<and> set_training_data ex_alm ex_u_bad ex_u_bad =
       (Inr (), ex_alm\<lparr>calls := calls ex_alm @ [Set_training_data (Some 0) ex_u_bad ex_u_bad]\<rparr>)"
  by (simp add: ex_alm_eq set_training_data_def ndim_def ex_u_bad_def call_def py_len_def
      ex_xcoord_def)

text \<open>
  Claim C5, amended. On an initialized object \<open>set_training_data(u, f)\<close> raises
  RuntimeError at once, before any engine call, when \<open>u\<close> or \<open>f\<close> does not have three
  dimensions; arrays of three dimensions are passed to the engine whatever their
  shape.
\<close>

theorem set_training_data_checks_ndim:
  assumes "self_id s \<noteq> None"
  shows "(ndim u \<noteq> 3 \<longrightarrow> set_training_data s u f =
            (Inl (RuntimeError ''Displacement array has to be three dimensions.''), s))
       \<and> (ndim u = 3 \<and> ndim f \<noteq> 3 \<longrightarrow> set_training_data s u f =
            (Inl (RuntimeError ''Force array has to be three dimensions.''), s))
       \<and> (ndim u = 3 \<and> ndim f = 3 \<longrightarrow> set_training_data s u f =
            (Inr (), call (Set_training_data (self_id s) u f) s))"
  using assms by (auto simp add: set_training_data_def)

theorem set_training_data_checks_ndim_witness:
  "self_id ex_alm \<noteq> None \<and> ndim ex_u_flat \<noteq> 3 \<and> ndim ex_u = 3
   \<and> set_training_data ex_alm ex_u_flat ex_u =
        (Inl (RuntimeError ''Displacement array has to be three dimensions.''), ex_alm)
   \<and> set_training_data ex_alm ex_u ex_u_flat =
        (Inl (RuntimeError ''Force array has to be three dimensions.''), ex_alm)
   \<and> set_training_data ex_alm ex_u ex_u =
        (Inr (), call (Set_training_data (self_id ex_alm) ex_u ex_u) ex_alm)"
proof -
  have a: "self_id ex_alm \<noteq> None" by (simp add: ex_alm_eq)
  have b: "ndim ex_u_flat \<noteq> 3" by (simp add: ndim_def ex_u_flat_def)
  have c: "ndim ex_u = 3" by (simp add: ndim_def ex_u_def)
  from set_training_data_checks_ndim [OF a, of ex_u_flat ex_u]
    set_training_data_checks_ndim [OF a, of ex_u ex_u_flat]
    set_training_data_checks_ndim [OF a, of ex_u ex_u] a b c
  show ?thesis by simp
qed

subsection \<open>Injecting force constants\<close>

lemma fc_length_loop_eq:
  "fc_length_loop eng xs acc s =
     (acc + sum_list (map (\<lambda>i. alm_get_number_of_irred_fc_elements eng (i + 1)) xs),
      s\<lparr>calls := calls s @ map (\<lambda>i. Get_number_of_irred_fc_elements (self_id s) (i + 1)) xs\<rparr>)"
proof (induction xs arbitrary: acc s)
  case Nil
  show ?case by simp
next
  case (Cons x xs)
  show ?case
    by (simp add: Cons.IH get_number_of_irred_fc_elements_def call_def)
qed

lemma sum_list_range:
  "sum_list (map (\<lambda>i. g (i + 1)) (range m)) = (\<Sum>k = 1..m. (g k :: int))"
proof -
  have "sum_list (map (\<lambda>i. g (i + 1)) (range m)) = (\<Sum>i = 0..<nat m. g (int i + 1))"
    by (simp add: range_def comp_def interv_sum_list_conv_sum_set_nat)
  also have "\<dots> = (\<Sum>k = 1..m. g k)"
    by (rule sum.reindex_bij_witness [where i = "\<lambda>k. nat (k - 1)" and j = "\<lambda>i. int i + 1"])
      auto
  finally show ?thesis .
qed

lemma upt_shift: "map (\<lambda>i. int i + c) [0..<n] = [c..c + int n - 1]"
proof (induction n)
  case 0
  show ?case by simp
next
  case (Suc n)
  have "[c..c + int (Suc n) - 1] = [c..c + int n - 1] @ [c + int n]"
    using upto_rec2 [of c "c + int n"] by simp
  with Suc show ?case by simp
qed

lemma range_shift: "map (\<lambda>i. i + c) (range m) = [c..m + c - 1]"
proof (cases "0 \<le> m")
  case True
  then show ?thesis
    using upt_shift [of c "nat m"] by (simp add: range_def comp_def add.commute)
next
  case False
  then show ?thesis by (simp add: range_def)
qed

lemma irred_queries:
  "map (\<lambda>i. Get_number_of_irred_fc_elements sid (i + 1)) (range m)
     = map (Get_number_of_irred_fc_elements sid) [1..m]"
proof -
  have "map (Get_number_of_irred_fc_elements sid) (map (\<lambda>i. i + 1) (range m))
          = map (Get_number_of_irred_fc_elements sid) [1..m]"
    by (simp only: range_shift) simp
  then show ?thesis by (simp add: comp_def)
qed

text \<open>
  Claim C3. On an initialized object \<open>set_fc(fc_in)\<close> asks the engine for the number of
  irreducible force constants of each order from 1 to \<open>self._maxorder\<close>, and raises
  RuntimeError (size mismatch) exactly when \<open>len(fc_in)\<close> differs from their sum. In that
  case the only engine calls made are these queries: no attribute changes and
  \<open>alm.set_fc\<close> is not called. When the length agrees, the vector is passed to
  \<open>alm.set_fc\<close>.
\<close>

theorem set_fc_size_check:
  assumes "self_id s \<noteq> None"
  shows "set_fc eng s fc_in =
     (if int (length fc_in)
           \<noteq> (\<Sum>k = 1..self_maxorder s. alm_get_number_of_irred_fc_elements eng k)
      then (Inl (RuntimeError ''The size of the given force constant array is incorrect.''),
            s\<lparr>calls := calls s
                 @ map (Get_number_of_irred_fc_elements (self_id s)) [1..self_maxorder s]\<rparr>)
      else (Inr (),
            s\<lparr>calls := calls s
                 @ map (Get_number_of_irred_fc_elements (self_id s)) [1..self_maxorder s]
                 @ [Set_fc (self_id s) fc_in]\<rparr>))"
  using assms
  by (auto simp add: set_fc_def fc_length_loop_eq sum_list_range call_def irred_queries)

theorem set_fc_size_check_witness:
  "self_id ex_alm \<noteq> None
   \<and> set_fc ex_engine ex_alm [1 / 2] =
       (Inr (), ex_alm\<lparr>calls := calls ex_alm
                  @ [Get_number_of_irred_fc_elements (Some 0) 1, Set_fc (Some 0) [1 / 2]]\<rparr>)
   \<and> set_fc ex_engine ex_alm [1 / 2, 1 / 3] =
       (Inl (RuntimeError ''The size of the given force constant array is incorrect.''),
        ex_alm\<lparr>calls := calls ex_alm @ [Get_number_of_irred_fc_elements (Some 0) 1]\<rparr>)"
proof -
  have a: "self_id ex_alm \<noteq> None" by (simp add: ex_alm_eq)
  have m: "self_maxorder ex_alm = 1" by (simp add: ex_alm_eq)
  have i: "self_id ex_alm = Some 0" by (simp add: ex_alm_eq)
  have u: "[1..1::int] = [1]" by (simp add: upto.simps)
  have e: "alm_get_number_of_irred_fc_elements ex_engine 1 = 1" by (simp add: ex_engine_def)
  from set_fc_size_check [OF a, of ex_engine "[1 / 2]"]
    set_fc_size_check [OF a, of ex_engine "[1 / 2, 1 / 3]"] a
  show ?thesis by (simp add: m i u e)
qed

subsection \<open>The rounded square root\<close>

lemma isqrt_bounds: "isqrt n * isqrt n \<le> n \<and> n < (isqrt n + 1) * (isqrt n + 1)"
proof (induction n)
  case 0
  show ?case by simp
next
  case (Suc n)
  then show ?case by (auto simp add: Let_def)
qed

lemma isqrt_unique:
  assumes "r * r \<le> n" and "n < (r + 1) * (r + 1)"
  shows "isqrt n = r"
proof -
  let ?q = "isqrt n"
  have a: "?q * ?q \<le> n" and b: "n < (?q + 1) * (?q + 1)"
    using isqrt_bounds [of n] by simp_all
  have "\<not> ?q < r"
  proof
    assume "?q < r"
    then have "?q + 1 \<le> r" by simp
    then have "(?q + 1) * (?q + 1) \<le> r * r" by (intro mult_le_mono)
    with b assms(1) show False by simp
  qed
  moreover have "\<not> r < ?q"
  proof
    assume "r < ?q"
    then have "r + 1 \<le> ?q" by simp
    then have "(r + 1) * (r + 1) \<le> ?q * ?q" by (intro mult_le_mono)
    with a assms(2) show False by simp
  qed
  ultimately show ?thesis by simp
qed

lemma isqrt_square: "isqrt (k * k) = k"
  by (rule isqrt_unique) simp_all

lemma round_sqrt_square: "round_sqrt (k * k) = k"
  by (simp add: round_sqrt_def isqrt_square)

text \<open>The integer computation agrees with rounding the real square root.\<close>

lemma round_sqrt_is_rounding: "int (round_sqrt q) = round (sqrt (real q))"
proof -
  let ?r = "isqrt q"
  have a: "?r * ?r \<le> q" and b: "q < (?r + 1) * (?r + 1)"
    using isqrt_bounds [of q] by simp_all
  have a': "(real ?r)\<^sup>2 \<le> real q"
  proof -
    have "real (?r * ?r) \<le> real q" using a by (simp only: of_nat_le_iff)
    then show ?thesis by (simp add: power2_eq_square)
  qed
  have b': "real q < (real ?r + 1)\<^sup>2"
  proof -
    have "real q < real ((?r + 1) * (?r + 1))" using b by (simp only: of_nat_less_iff)
    then show ?thesis by (simp add: power2_eq_square algebra_simps)
  qed
  have lo: "real ?r \<le> sqrt (real q)"
    using a' by (rule real_le_rsqrt)
  have hi: "sqrt (real q) < real ?r + 1"
    using b' by (intro real_less_lsqrt) simp_all
  show ?thesis
  proof (cases "q - ?r * ?r \<le> ?r")
    case True
    then have "q \<le> ?r * ?r + ?r" by simp
    then have "real q \<le> real (?r * ?r + ?r)" by (simp only: of_nat_le_iff)
    then have "real q < (real ?r + 1 / 2)\<^sup>2"
      by (simp add: power2_eq_square algebra_simps)
    then have "sqrt (real q) < real ?r + 1 / 2"
      by (intro real_less_lsqrt) simp_all
    with lo have "\<bar>sqrt (real q) - of_int (int ?r)\<bar> < 1 / 2" by simp
    then have "round (sqrt (real q)) = int ?r" by (rule round_unique')
    with True show ?thesis by (simp add: round_sqrt_def)
  next
    case False
    then have "?r * ?r + ?r + 1 \<le> q" by simp
    then have "real (?r * ?r + ?r + 1) \<le> real q" by (simp only: of_nat_le_iff)
    then have "(real ?r + 1 / 2)\<^sup>2 < real q"
      by (simp add: power2_eq_square algebra_simps)
    then have "real ?r + 1 / 2 < sqrt (real q)"
      by (intro real_less_rsqrt)
    with hi have "\<bar>sqrt (real q) - of_int (int ?r + 1)\<bar> < 1 / 2" by simp
    then have "round (sqrt (real q)) = int ?r + 1" by (rule round_unique')
    with False show ?thesis by (simp add: round_sqrt_def)
  qed
qed

subsection \<open>\<open>define\<close>: transfer, \<open>nbody\<close>, \<open>cutoff_radii\<close>, basis\<close>

lemma transfer_parameters_done:
  "\<not> self_need_transfer s \<Longrightarrow> transfer_parameters eng s = (Inr (), s)"
  by (simp add: transfer_parameters_def)

lemma transfer_parameters_calls:
  assumes "transfer_parameters eng s = (Inr (), s1)"
  shows "self_id s1 = self_id s
       \<and> calls s1 = calls s @ (if self_need_transfer s
            then [Set_cell (self_id s) (self_lavec s) (self_xcoord s) (self_numbers s),
                  Set_verbosity (self_id s) (self_verbosity s)]
            else [])"
  using assms
  by (auto simp add: transfer_parameters_def priv_set_cell_def priv_set_verbosity_def call_def
      Let_def split: if_splits sum.splits prod.splits)

lemma define_alm_after_transfer:
  assumes "self_id s \<noteq> None" and "transfer_parameters eng s = (Inr (), s1)"
  shows "define_alm eng s maxorder cutoff_radii nbody basis =
     (case define_nbody maxorder nbody of
        Inl e \<Rightarrow> (Inl e, s1)
      | Inr nbody1 \<Rightarrow>
         (case define_cutoff_radii maxorder cutoff_radii of
            Inl e \<Rightarrow> (Inl e, s1)
          | Inr cutoff_radii1 \<Rightarrow>
             (case np_array_intc nbody1 of
                Inl e \<Rightarrow> (Inl e, s1\<lparr>self_maxorder := maxorder\<rparr>)
              | Inr nbody2 \<Rightarrow>
                 (Inr (), s1\<lparr>self_maxorder := maxorder,
                             calls := calls s1 @ [Define (self_id s) maxorder nbody2
                                                     cutoff_radii1 (fc_basis basis),
                                                  Generate_force_constant (self_id s)]\<rparr>))))"
  using assms transfer_parameters_calls [OF assms(2)]
  by (auto simp add: define_alm_def call_def Let_def split: sum.splits)

lemma np_array_intc_default:
  "maxorder < 2147483647 \<Longrightarrow> np_array_intc [2..maxorder + 1] = Inr [2..maxorder + 1]"
  by (auto simp add: np_array_intc_def list_all_iff)

lemma np_array_intc_default_overflow:
  assumes "2147483647 \<le> maxorder"
  shows "np_array_intc [2..maxorder + 1]
           = Inl (OverflowError ''Python integer out of bounds for int32'')"
proof -
  from assms have "2147483648 \<in> set [2..maxorder + 1]" by simp
  then have "\<not> list_all (\<lambda>x. - 2147483648 \<le> x \<and> x < 2147483648) [2..maxorder + 1]"
    unfolding list_all_iff by fastforce
  then show ?thesis by (simp add: np_array_intc_def)
qed

lemma define_nbody_default: "define_nbody maxorder None = Inr [2..maxorder + 1]"
  using range_shift [of 2 maxorder] by (simp add: define_nbody_def add.commute)

lemma define_cutoff_radii_square:
  assumes "1 \<le> maxorder" and "int (length (data a)) = maxorder * int (k * k)"
  shows "define_cutoff_radii maxorder (Some a)
           = Inr (Some \<lparr>shape = [nat maxorder, k, k], data = data a\<rparr>)"
proof -
  have q: "int (length (data a)) div maxorder = int (k * k)"
    using assms by simp
  have r: "round_sqrt (nat (int (k * k))) = k"
    by (simp only: nat_int round_sqrt_square)
  have d: "int (k * k) * maxorder = int (length (data a))"
    using assms(2) by (simp only: mult.commute)
  have p: "int (k\<^sup>2) - int (k * k) = 0"
    by (simp add: power2_eq_square)
  show ?thesis
    unfolding define_cutoff_radii_def Let_def option.case q r d p
    using assms(1) by simp
qed

lemma define_cutoff_radii_not_square:
  assumes "1 \<le> maxorder" and "\<And>k. int (length (data a)) \<noteq> maxorder * int (k * k)"
  shows "define_cutoff_radii maxorder (Some a)
           = Inl (RuntimeError ''The array shape of cutoff_radii is wrong.'')"
proof (cases "int (length (data a)) div maxorder * maxorder = int (length (data a))")
  case False
  with assms(1) show ?thesis by (simp add: define_cutoff_radii_def Let_def)
next
  case True
  let ?q = "int (length (data a)) div maxorder"
  have nn: "0 \<le> ?q" using assms(1) by (simp add: pos_imp_zdiv_nonneg_iff)
  have "int (round_sqrt (nat ?q) * round_sqrt (nat ?q)) \<noteq> ?q"
  proof
    assume "int (round_sqrt (nat ?q) * round_sqrt (nat ?q)) = ?q"
    then have "int (length (data a))
                 = maxorder * int (round_sqrt (nat ?q) * round_sqrt (nat ?q))"
      using True by (simp add: mult.commute)
    with assms(2) show False by blast
  qed
  with assms(1) True nn show ?thesis
    by (simp add: define_cutoff_radii_def Let_def power2_eq_square)
qed

lemma char_of_nat_eq: "char_of (n :: nat) = c \<longleftrightarrow> n mod 256 = of_char c"
  by (simp add: char_of_eq_iff take_bit_eq_mod)

lemma lower_char_eq:
  assumes "lower_char c = d" and "97 \<le> (of_char d :: nat)" and "(of_char d :: nat) \<le> 122"
  shows "upper_char c = char_of ((of_char d :: nat) - 32)"
proof (cases "65 \<le> (of_char c :: nat) \<and> (of_char c :: nat) \<le> 90")
  case True
  then have d: "d = char_of ((of_char c :: nat) + 32)"
    using assms(1) by (simp add: lower_char_def)
  have e: "(of_char d :: nat) = of_char c + 32"
    using True by (simp add: d)
  show ?thesis using True e by (simp add: upper_char_def)
next
  case False
  then have "d = c" using assms(1) by (auto simp add: lower_char_def Let_def)
  then show ?thesis using assms by (simp add: upper_char_def)
qed

lemma capitalize_of_lower:
  assumes "lower b = d # ds" and "97 \<le> (of_char d :: nat)" and "(of_char d :: nat) \<le> 122"
  shows "capitalize b = char_of ((of_char d :: nat) - 32) # ds"
proof -
  from assms(1) obtain c cs where b: "b = c # cs" and c: "lower_char c = d"
    and cs: "map lower_char cs = ds"
    by (auto simp add: lower_def map_eq_Cons_conv)
  show ?thesis
    using lower_char_eq [OF c assms(2) assms(3)] cs by (simp add: b capitalize_def)
qed

lemma fc_basis_lattice: "lower b = ''lattice'' \<Longrightarrow> fc_basis b = ''Lattice''"
  using capitalize_of_lower [of b "CHR ''l''" "''attice''"] by (simp add: fc_basis_def char_of_nat_eq)

lemma fc_basis_cartesian: "lower b = ''cartesian'' \<Longrightarrow> fc_basis b = ''Cartesian''"
  using capitalize_of_lower [of b "CHR ''c''" "''artesian''"]
  by (simp add: fc_basis_def char_of_nat_eq)

lemma fc_basis_other:
  "lower b \<noteq> ''lattice'' \<Longrightarrow> lower b \<noteq> ''cartesian'' \<Longrightarrow> fc_basis b = ''Lattice''"
  by (simp add: fc_basis_def)

lemma fc_basis_idem: "fc_basis (fc_basis b) = fc_basis b"
proof -
  have l: "lower ''Lattice'' = ''lattice''" by (simp add: lower_def lower_char_def char_of_nat_eq)
  have c: "lower ''Cartesian'' = ''cartesian''" by (simp add: lower_def lower_char_def char_of_nat_eq)
  have "fc_basis ''Lattice'' = ''Lattice''" by (rule fc_basis_lattice [OF l])
  moreover have "fc_basis ''Cartesian'' = ''Cartesian''" by (rule fc_basis_cartesian [OF c])
  ultimately show ?thesis
    using fc_basis_lattice [of b] fc_basis_cartesian [of b] fc_basis_other [of b]
    by (cases "lower b = ''lattice''"; cases "lower b = ''cartesian''") simp_all
qed

lemma define_alm_outcome_without_basis:
  "fst (define_alm eng s maxorder cutoff_radii nbody basis)
     = fst (define_alm eng s maxorder cutoff_radii nbody basis')"
  by (simp add: define_alm_def Let_def split: prod.splits sum.splits)

lemma fc_basis_eq:
  "fc_basis b = (if lower b = ''cartesian'' then ''Cartesian'' else ''Lattice'')"
  using fc_basis_other [of b] fc_basis_lattice [of b] fc_basis_cartesian [of b]
  by (cases "lower b = ''lattice''"; cases "lower b = ''cartesian''") simp_all

lemma ex_alm_transferred: "transfer_parameters ex_engine ex_alm = (Inr (), ex_alm)"
  by (rule transfer_parameters_done) (simp add: ex_alm_eq)

lemma ex_pending_transfer:
  "transfer_parameters ex_engine ex_pending =
     (Inr (), ex_alm\<lparr>self_verbosity := 1,
                      calls := calls ex_alm @ [Set_cell (Some 0) ex_lavec ex_xcoord ex_numbers,
                                               Set_verbosity (Some 0) 1]\<rparr>)"
  by (simp add: ex_pending_def set_verbosity_def ex_alm_eq transfer_parameters_def
      priv_set_cell_def priv_set_verbosity_def py_len_def ex_xcoord_def ex_numbers_def
      ex_engine_def fill_def call_def)

text \<open>
  Claim C6, as stated, fails in its second half: when parameters are waiting to be
  transferred (here the verbosity was set after \<open>alm_new\<close>), \<open>define\<close> with an \<open>nbody\<close> of
  the wrong length calls \<open>alm.set_cell\<close> and \<open>alm.set_verbosity\<close> before it raises.
\<close>

theorem define_nbody_mismatch_counterexample:
  "self_id ex_pending \<noteq> None
   \<and> fst (define_alm ex_engine ex_pending 1 None (Some [2, 3]) ''Lattice'')
       = Inl (RuntimeError ''The size of nbody must be equal to maxorder.'')
   \<and> calls (snd (define_alm ex_engine ex_pending 1 None (Some [2, 3]) ''Lattice''))
       = calls ex_pending @ [Set_cell (Some 0) ex_lavec ex_xcoord ex_numbers,
                             Set_verbosity (Some 0) 1]"
proof -
  have a: "self_id ex_pending \<noteq> None"
    by (simp add: ex_pending_def set_verbosity_def ex_alm_eq)
  have c: "calls ex_pending = calls ex_alm"
    by (simp add: ex_pending_def set_verbosity_def)
  show ?thesis
    using a by (simp add: define_alm_after_transfer [OF a ex_pending_transfer]
        define_nbody_def c)
qed

text \<open>
  The default list holds the entry \<open>maxorder + 1\<close>, which fits a C \<open>int\<close> only for
  \<open>maxorder\<close> below \<open>2\<^sup>3\<^sup>1 - 1\<close>: from there on the conversion of the list raises, after
  \<open>self._maxorder\<close> was assigned.
\<close>

lemma define_default_nbody_overflow:
  assumes "self_id s \<noteq> None" and "transfer_parameters eng s = (Inr (), s1)"
    and "2147483647 \<le> maxorder"
    and "define_cutoff_radii maxorder cutoff_radii = Inr cr1"
  shows "define_alm eng s maxorder cutoff_radii None basis =
           (Inl (OverflowError ''Python integer out of bounds for int32''),
            s1\<lparr>self_maxorder := maxorder\<rparr>)"
  by (simp add: define_alm_after_transfer [OF assms(1,2)] define_nbody_default assms(4)
      np_array_intc_default_overflow [OF assms(3)])

text \<open>
  Claim C6, amended. On an initialized object whose pending parameters transfer
  without error, \<open>define(maxorder, cutoff_radii, nbody=None, basis)\<close> with \<open>maxorder\<close> below
  \<open>2\<^sup>3\<^sup>1 - 1\<close> passes the list \<open>[2, 3, ..., maxorder + 1]\<close> to \<open>alm.define\<close> (when
  \<open>cutoff_radii\<close> is accepted), and \<open>define\<close> with an \<open>nbody\<close> whose length differs from
  \<open>maxorder\<close> raises RuntimeError before \<open>alm.define\<close> and \<open>alm.generate_force_constant\<close>
  are called. The only engine calls made before the error are \<open>set_cell\<close> and
  \<open>set_verbosity\<close>, and only when \<open>self._need_transfer\<close> was set; otherwise the object is
  unchanged.
\<close>

theorem define_nbody_default_and_length_check:
  assumes "self_id s \<noteq> None" and "transfer_parameters eng s = (Inr (), s1)"
  shows "(maxorder < 2147483647 \<and> define_cutoff_radii maxorder cutoff_radii = Inr cr1 \<longrightarrow>
            define_alm eng s maxorder cutoff_radii None basis =
              (Inr (), s1\<lparr>self_maxorder := maxorder,
                          calls := calls s1 @ [Define (self_id s) maxorder [2..maxorder + 1] cr1
                                                  (fc_basis basis),
                                               Generate_force_constant (self_id s)]\<rparr>))
       \<and> (int (length nb) \<noteq> maxorder \<longrightarrow>
            define_alm eng s maxorder cutoff_radii (Some nb) basis =
              (Inl (RuntimeError ''The size of nbody must be equal to maxorder.''), s1))
       \<and> calls s1 = calls s @ (if self_need_transfer s
            then [Set_cell (self_id s) (self_lavec s) (self_xcoord s) (self_numbers s),
                  Set_verbosity (self_id s) (self_verbosity s)]
            else [])
       \<and> (\<not> self_need_transfer s \<longrightarrow> s1 = s)"
proof -
  have "\<not> self_need_transfer s \<longrightarrow> s1 = s"
    using assms(2) by (auto simp add: transfer_parameters_done)
  moreover have "int (length nb) \<noteq> maxorder \<longrightarrow>
      define_alm eng s maxorder cutoff_radii (Some nb) basis =
        (Inl (RuntimeError ''The size of nbody must be equal to maxorder.''), s1)"
    by (simp add: define_alm_after_transfer [OF assms] define_nbody_def)
  moreover have "maxorder < 2147483647 \<and> define_cutoff_radii maxorder cutoff_radii = Inr cr1 \<longrightarrow>
      define_alm eng s maxorder cutoff_radii None basis =
        (Inr (), s1\<lparr>self_maxorder := maxorder,
                    calls := calls s1 @ [Define (self_id s) maxorder [2..maxorder + 1] cr1
                                            (fc_basis basis),
                                         Generate_force_constant (self_id s)]\<rparr>)"
    by (simp add: define_alm_after_transfer [OF assms] define_nbody_default
        np_array_intc_default)
  ultimately show ?thesis
    using transfer_parameters_calls [OF assms(2)] by simp
qed

theorem define_nbody_default_and_length_check_witness:
  "self_id ex_alm \<noteq> None \<and> transfer_parameters ex_engine ex_alm = (Inr (), ex_alm)
   \<and> (2 :: int) < 2147483647
   \<and> define_cutoff_radii 2 None = Inr None \<and> int (length [2 :: int]) \<noteq> 2
   \<and> \<not> self_need_transfer ex_alm
   \<and> define_alm ex_engine ex_alm 2 None None ''Lattice'' =
       (Inr (), ex_alm\<lparr>self_maxorder := 2,
                       calls := calls ex_alm @ [Define (Some 0) 2 [2, 3] None ''Lattice'',
                                                Generate_force_constant (Some 0)]\<rparr>)
   \<and> define_alm ex_engine ex_alm 2 None (Some [2]) ''Lattice'' =
       (Inl (RuntimeError ''The size of nbody must be equal to maxorder.''), ex_alm)"
proof -
  have a: "self_id ex_alm \<noteq> None" by (simp add: ex_alm_eq)
  have i: "self_id ex_alm = Some 0" by (simp add: ex_alm_eq)
  have n: "\<not> self_need_transfer ex_alm" by (simp add: ex_alm_eq)
  have c: "define_cutoff_radii 2 None = Inr None" by (simp add: define_cutoff_radii_def)
  have l: "fc_basis ''Lattice'' = ''Lattice''"
    by (simp add: fc_basis_def lower_def lower_char_def capitalize_def upper_char_def
        char_of_nat_eq)
  have u: "[2..2 + 1 :: int] = [2, 3]" by (simp add: upto.simps)
  from define_nbody_default_and_length_check [OF a ex_alm_transferred,
      where maxorder = 2 and cutoff_radii = None and ?cr1.0 = None and nb = "[2]"
        and basis = "''Lattice''"] a n c
  show ?thesis by (simp add: ex_alm_transferred i l u)
qed

lemma two_not_square: "(2 :: int) \<noteq> 1 * (int k)\<^sup>2"
proof
  assume "(2 :: int) = 1 * (int k)\<^sup>2"
  then have "int (k * k) = int 2" by (simp add: power2_eq_square)
  then have e: "k * k = 2" by (simp only: of_nat_eq_iff)
  have "k < 2"
  proof (rule ccontr)
    assume "\<not> k < 2"
    then have "2 \<le> k" by simp
    then have "2 * 2 \<le> k * k" by (intro mult_le_mono)
    with e show False by simp
  qed
  then have "k = 0 \<or> k = 1" by auto
  with e show False by auto
qed

text \<open>
  Claim C7, as stated, fails for an empty \<open>cutoff_radii\<close>: its element count is \<open>0\<close>, which
  is \<open>maxorder * k\<^sup>2\<close> for no positive \<open>k\<close>, and \<open>define\<close> accepts it, reshaped to
  \<open>(maxorder, 0, 0)\<close>.
\<close>

theorem define_cutoff_radii_empty_counterexample:
  "length (data ex_cutoff_empty) = 0
   \<and> define_alm ex_engine ex_alm 1 (Some ex_cutoff_empty) None ''Lattice'' =
       (Inr (), ex_alm\<lparr>self_maxorder := 1,
                       calls := calls ex_alm
                         @ [Define (Some 0) 1 [2] (Some \<lparr>shape = [1, 0, 0], data = []\<rparr>)
                              ''Lattice'',
                            Generate_force_constant (Some 0)]\<rparr>)"
proof -
  have a: "self_id ex_alm \<noteq> None" by (simp add: ex_alm_eq)
  have i: "self_id ex_alm = Some 0" by (simp add: ex_alm_eq)
  have l: "fc_basis ''Lattice'' = ''Lattice''"
    by (simp add: fc_basis_def lower_def lower_char_def capitalize_def upper_char_def
        char_of_nat_eq)
  have u: "[2..1 + 1 :: int] = [2]" by (simp add: upto.simps)
  have v: "np_array_intc [2] = Inr [2]" by (simp add: np_array_intc_def)
  have c: "define_cutoff_radii 1 (Some ex_cutoff_empty)
             = Inr (Some \<lparr>shape = [1, 0, 0], data = []\<rparr>)"
    by (simp add: define_cutoff_radii_def ex_cutoff_empty_def round_sqrt_def)
  have e: "length (data ex_cutoff_empty) = 0" by (simp add: ex_cutoff_empty_def)
  show ?thesis
    by (simp add: define_alm_after_transfer [OF a ex_alm_transferred] define_nbody_default
        c e i l u v)
qed

text \<open>
  Claim C7, amended. Let \<open>maxorder \<ge> 1\<close>, on an initialized object whose pending
  parameters transfer without error, with an \<open>nbody\<close> that passes the test of its length
  (\<open>None\<close>, or a list of \<open>maxorder\<close> entries), and let \<open>cutoff_radii\<close> be not \<open>None\<close>. Then
  \<open>define\<close> raises RuntimeError for a wrong shape of \<open>cutoff_radii\<close>, with the object as
  the transfer left it and no call of the engine's \<open>define\<close>, if and only if the element
  count is \<open>maxorder * k\<^sup>2\<close> for no integer \<open>k \<ge> 0\<close>. When the entries of \<open>nbody\<close> moreover
  fit a C \<open>int\<close>, \<open>define\<close> succeeds if and only if the element count is \<open>maxorder * k\<^sup>2\<close>
  for some integer \<open>k \<ge> 0\<close>, and \<open>cutoff_radii\<close> is then passed to \<open>alm.define\<close> with shape
  \<open>(maxorder, k, k)\<close> and its elements in the same (row-major) order. Nothing in the
  condition refers to the structure: \<open>k\<close> is not compared with the number of species.
\<close>

theorem define_cutoff_radii_accepted_iff:
  assumes "self_id s \<noteq> None" and "1 \<le> maxorder"
    and "transfer_parameters eng s = (Inr (), s1)"
    and "define_nbody maxorder nbody = Inr nbody1"
  shows "((fst (define_alm eng s maxorder (Some a) nbody basis)
             = Inl (RuntimeError ''The array shape of cutoff_radii is wrong.''))
            = (\<forall>k. int (length (data a)) \<noteq> maxorder * (int k)\<^sup>2))
       \<and> ((\<forall>k. int (length (data a)) \<noteq> maxorder * (int k)\<^sup>2) \<longrightarrow>
            define_alm eng s maxorder (Some a) nbody basis =
              (Inl (RuntimeError ''The array shape of cutoff_radii is wrong.''), s1))
       \<and> (np_array_intc nbody1 = Inr nbody2 \<longrightarrow>
            (fst (define_alm eng s maxorder (Some a) nbody basis) = Inr ())
              = (\<exists>k. int (length (data a)) = maxorder * (int k)\<^sup>2))
       \<and> (\<forall>k. np_array_intc nbody1 = Inr nbody2
               \<and> int (length (data a)) = maxorder * (int k)\<^sup>2 \<longrightarrow>
            define_alm eng s maxorder (Some a) nbody basis =
              (Inr (), s1\<lparr>self_maxorder := maxorder,
                          calls := calls s1
                            @ [Define (self_id s) maxorder nbody2
                                 (Some \<lparr>shape = [nat maxorder, k, k], data = data a\<rparr>)
                                 (fc_basis basis),
                               Generate_force_constant (self_id s)]\<rparr>))"
proof -
  note d = define_alm_after_transfer [OF assms(1) assms(3)]
  have sq: "define_cutoff_radii maxorder (Some a)
              = Inr (Some \<lparr>shape = [nat maxorder, k, k], data = data a\<rparr>)"
    if "int (length (data a)) = maxorder * (int k)\<^sup>2" for k
  proof -
    from that have "int (length (data a)) = maxorder * int (k * k)"
      by (simp add: power2_eq_square)
    from define_cutoff_radii_square [OF assms(2) this] show ?thesis .
  qed
  have yes: "define_alm eng s maxorder (Some a) nbody basis =
              (Inr (), s1\<lparr>self_maxorder := maxorder,
                          calls := calls s1
                            @ [Define (self_id s) maxorder nbody2
                                 (Some \<lparr>shape = [nat maxorder, k, k], data = data a\<rparr>)
                                 (fc_basis basis),
                               Generate_force_constant (self_id s)]\<rparr>)"
    if "np_array_intc nbody1 = Inr nbody2"
      and "int (length (data a)) = maxorder * (int k)\<^sup>2" for k
    using that(1) sq [OF that(2)] by (simp add: d assms(4))
  have other: "fst (define_alm eng s maxorder (Some a) nbody basis)
                 \<noteq> Inl (RuntimeError ''The array shape of cutoff_radii is wrong.'')"
    if "int (length (data a)) = maxorder * (int k)\<^sup>2" for k
    using sq [OF that]
    by (cases "np_array_intc nbody1")
      (auto simp add: d assms(4) np_array_intc_def split: if_splits)
  have no: "define_alm eng s maxorder (Some a) nbody basis =
              (Inl (RuntimeError ''The array shape of cutoff_radii is wrong.''), s1)"
    if "\<forall>k. int (length (data a)) \<noteq> maxorder * (int k)\<^sup>2"
  proof -
    from that have "\<And>k. int (length (data a)) \<noteq> maxorder * int (k * k)"
      by (simp add: power2_eq_square)
    from define_cutoff_radii_not_square [OF assms(2) this] show ?thesis
      by (simp add: d assms(4))
  qed
  have one: "(fst (define_alm eng s maxorder (Some a) nbody basis)
             = Inl (RuntimeError ''The array shape of cutoff_radii is wrong.''))
            = (\<forall>k. int (length (data a)) \<noteq> maxorder * (int k)\<^sup>2)"
    using no other by (metis fst_conv)
  have three: "(fst (define_alm eng s maxorder (Some a) nbody basis) = Inr ())
              = (\<exists>k. int (length (data a)) = maxorder * (int k)\<^sup>2)"
    if "np_array_intc nbody1 = Inr nbody2"
  proof (cases "\<exists>k. int (length (data a)) = maxorder * (int k)\<^sup>2")
    case True
    then obtain k where "int (length (data a)) = maxorder * (int k)\<^sup>2" ..
    from yes [OF that this] True show ?thesis by simp
  next
    case False
    then have "\<forall>k. int (length (data a)) \<noteq> maxorder * (int k)\<^sup>2" by simp
    from no [OF this] False show ?thesis by simp
  qed
  from one no three yes show ?thesis by blast
qed

theorem define_cutoff_radii_accepted_iff_witness:
  "self_id ex_alm \<noteq> None \<and> (1 :: int) \<le> 1
   \<and> transfer_parameters ex_engine ex_alm = (Inr (), ex_alm)
   \<and> define_nbody 1 None = Inr [2] \<and> np_array_intc [2] = Inr [2]
   \<and> int (length (data ex_cutoff_4)) = 1 * (int 2)\<^sup>2
   \<and> define_alm ex_engine ex_alm 1 (Some ex_cutoff_4) None ''Lattice'' =
       (Inr (), ex_alm\<lparr>self_maxorder := 1,
                       calls := calls ex_alm
                         @ [Define (Some 0) 1 [2]
                              (Some \<lparr>shape = [1, 2, 2], data = data ex_cutoff_4\<rparr>) ''Lattice'',
                            Generate_force_constant (Some 0)]\<rparr>)
   \<and> (\<forall>k. int (length (data ex_cutoff_2)) \<noteq> 1 * (int k)\<^sup>2)
   \<and> define_alm ex_engine ex_alm 1 (Some ex_cutoff_2) None ''Lattice'' =
       (Inl (RuntimeError ''The array shape of cutoff_radii is wrong.''), ex_alm)
   \<and> fst (define_alm ex_engine ex_alm 1 (Some ex_cutoff_2) None ''Lattice'') \<noteq> Inr ()"
proof -
  have a: "self_id ex_alm \<noteq> None" by (simp add: ex_alm_eq)
  have i: "self_id ex_alm = Some 0" by (simp add: ex_alm_eq)
  have o: "(1 :: int) \<le> 1" by simp
  have n: "define_nbody 1 None = Inr [2]"
    by (simp add: define_nbody_default upto.simps)
  have v: "np_array_intc [2] = Inr [2]" by (simp add: np_array_intc_def)
  have l: "fc_basis ''Lattice'' = ''Lattice''"
    by (simp add: fc_basis_def lower_def lower_char_def capitalize_def upper_char_def
        char_of_nat_eq)
  have y: "int (length (data ex_cutoff_4)) = 1 * (int 2)\<^sup>2"
    by (simp add: ex_cutoff_4_def)
  have z: "\<forall>k. int (length (data ex_cutoff_2)) \<noteq> 1 * (int k)\<^sup>2"
    using two_not_square by (simp add: ex_cutoff_2_def)
  note t = define_cutoff_radii_accepted_iff [OF a o ex_alm_transferred n]
  from t [of ex_cutoff_4 "''Lattice''" "[2]"] y v
  have "define_alm ex_engine ex_alm 1 (Some ex_cutoff_4) None ''Lattice'' =
       (Inr (), ex_alm\<lparr>self_maxorder := 1,
                       calls := calls ex_alm
                         @ [Define (self_id ex_alm) 1 [2]
                              (Some \<lparr>shape = [nat 1, 2, 2], data = data ex_cutoff_4\<rparr>)
                              (fc_basis ''Lattice''),
                            Generate_force_constant (self_id ex_alm)]\<rparr>)"
    by blast
  then have r1: "define_alm ex_engine ex_alm 1 (Some ex_cutoff_4) None ''Lattice'' =
       (Inr (), ex_alm\<lparr>self_maxorder := 1,
                       calls := calls ex_alm
                         @ [Define (Some 0) 1 [2]
                              (Some \<lparr>shape = [1, 2, 2], data = data ex_cutoff_4\<rparr>) ''Lattice'',
                            Generate_force_constant (Some 0)]\<rparr>)"
    by (simp add: i l)
  from t [of ex_cutoff_2 "''Lattice''" "[2]"] z
  have r2: "define_alm ex_engine ex_alm 1 (Some ex_cutoff_2) None ''Lattice'' =
       (Inl (RuntimeError ''The array shape of cutoff_radii is wrong.''), ex_alm)"
    by blast
  from a o n v y z r1 r2 ex_alm_transferred show ?thesis by simp
qed

text \<open>
  Claim C10. Whether \<open>define\<close> returns or raises does not depend on
  \<open>symmetrization_basis\<close>: no name makes it raise. Whenever \<open>define\<close> returns, its last two
  engine calls are \<open>alm.define\<close> and \<open>alm.generate_force_constant\<close>, and the basis handed
  to \<open>alm.define\<close> is \<open>Cartesian\<close> when the lower-case form of the name is \<open>cartesian\<close>
  and \<open>Lattice\<close> in every other case: for \<open>lattice\<close> in any mix of upper and lower case,
  and, silently, for every unrecognized name. The second part states the whole result
  when the other arguments are accepted.
\<close>

theorem define_unrecognized_basis_is_lattice:
  "fst (define_alm eng s maxorder cutoff_radii nbody basis)
     = fst (define_alm eng s maxorder cutoff_radii nbody ''Lattice'')
   \<and> (self_id s \<noteq> None \<and> transfer_parameters eng s = (Inr (), s1)
        \<and> define_nbody maxorder nbody = Inr nbody1
        \<and> define_cutoff_radii maxorder cutoff_radii = Inr cr1
        \<and> np_array_intc nbody1 = Inr nbody2 \<longrightarrow>
        define_alm eng s maxorder cutoff_radii nbody basis =
          (Inr (), s1\<lparr>self_maxorder := maxorder,
                      calls := calls s1
                        @ [Define (self_id s) maxorder nbody2 cr1
                             (if lower basis = ''cartesian'' then ''Cartesian'' else ''Lattice''),
                           Generate_force_constant (self_id s)]\<rparr>))
   \<and> (fst (define_alm eng s maxorder cutoff_radii nbody basis) = Inr () \<longrightarrow>
        (\<exists>s2 nb cr.
           snd (define_alm eng s maxorder cutoff_radii nbody basis) =
             s2\<lparr>self_maxorder := maxorder,
                calls := calls s2
                  @ [Define (self_id s) maxorder nb cr
                       (if lower basis = ''cartesian'' then ''Cartesian'' else ''Lattice''),
                     Generate_force_constant (self_id s)]\<rparr>))"
proof -
  have one: "fst (define_alm eng s maxorder cutoff_radii nbody basis)
     = fst (define_alm eng s maxorder cutoff_radii nbody ''Lattice'')"
    by (rule define_alm_outcome_without_basis)
  have two: "define_alm eng s maxorder cutoff_radii nbody basis =
          (Inr (), s1\<lparr>self_maxorder := maxorder,
                      calls := calls s1
                        @ [Define (self_id s) maxorder nbody2 cr1
                             (if lower basis = ''cartesian'' then ''Cartesian'' else ''Lattice''),
                           Generate_force_constant (self_id s)]\<rparr>)"
    if "self_id s \<noteq> None" and "transfer_parameters eng s = (Inr (), s1)"
      and "define_nbody maxorder nbody = Inr nbody1"
      and "define_cutoff_radii maxorder cutoff_radii = Inr cr1"
      and "np_array_intc nbody1 = Inr nbody2" for s1 nbody1 cr1 nbody2
    using that(3,4,5)
    by (simp add: define_alm_after_transfer [OF that(1,2)] fc_basis_eq)
  have three: "\<exists>s2 nb cr.
           snd (define_alm eng s maxorder cutoff_radii nbody basis) =
             s2\<lparr>self_maxorder := maxorder,
                calls := calls s2
                  @ [Define (self_id s) maxorder nb cr
                       (if lower basis = ''cartesian'' then ''Cartesian'' else ''Lattice''),
                     Generate_force_constant (self_id s)]\<rparr>"
    if r: "fst (define_alm eng s maxorder cutoff_radii nbody basis) = Inr ()"
  proof -
    have a: "self_id s \<noteq> None"
    proof
      assume "self_id s = None"
      then have "fst (define_alm eng s maxorder cutoff_radii nbody basis)
                   = Inl show_error_message"
        by (simp add: define_alm_def)
      with r show False by simp
    qed
    obtain x s1 where t: "transfer_parameters eng s = (x, s1)"
      by (cases "transfer_parameters eng s")
    have "x = Inr ()"
    proof (cases x)
      case (Inl e)
      with a t have "fst (define_alm eng s maxorder cutoff_radii nbody basis) = Inl e"
        by (auto simp add: define_alm_def)
      with r show ?thesis by simp
    next
      case (Inr u)
      then show ?thesis by simp
    qed
    with t have t': "transfer_parameters eng s = (Inr (), s1)" by simp
    note d = define_alm_after_transfer [OF a t']
    obtain nbody1 where n: "define_nbody maxorder nbody = Inr nbody1"
      using r by (cases "define_nbody maxorder nbody") (auto simp add: d)
    obtain cr1 where c: "define_cutoff_radii maxorder cutoff_radii = Inr cr1"
      using r n by (cases "define_cutoff_radii maxorder cutoff_radii") (auto simp add: d)
    obtain nbody2 where v: "np_array_intc nbody1 = Inr nbody2"
      using r n c by (cases "np_array_intc nbody1") (auto simp add: d)
    from two [OF a t' n c v] show ?thesis
      by (metis snd_conv)
  qed
  from one two three show ?thesis by blast
qed

theorem define_unrecognized_basis_is_lattice_witness:
  "self_id ex_alm \<noteq> None \<and> transfer_parameters ex_engine ex_alm = (Inr (), ex_alm)
   \<and> define_nbody 1 None = Inr [2] \<and> define_cutoff_radii 1 None = Inr None
   \<and> np_array_intc [2] = Inr [2]
   \<and> lower ''Hexagonal'' \<noteq> ''lattice'' \<and> lower ''Hexagonal'' \<noteq> ''cartesian''
   \<and> define_alm ex_engine ex_alm 1 None None ''Hexagonal'' =
       (Inr (), ex_alm\<lparr>self_maxorder := 1,
                       calls := calls ex_alm @ [Define (Some 0) 1 [2] None ''Lattice'',
                                                Generate_force_constant (Some 0)]\<rparr>)
   \<and> lower ''cArTeSiAn'' = ''cartesian''
   \<and> define_alm ex_engine ex_alm 1 None None ''cArTeSiAn'' =
       (Inr (), ex_alm\<lparr>self_maxorder := 1,
                       calls := calls ex_alm @ [Define (Some 0) 1 [2] None ''Cartesian'',
                                                Generate_force_constant (Some 0)]\<rparr>)
   \<and> lower ''LATTICE'' = ''lattice''
   \<and> define_alm ex_engine ex_alm 1 None None ''LATTICE'' =
       (Inr (), ex_alm\<lparr>self_maxorder := 1,
                       calls := calls ex_alm @ [Define (Some 0) 1 [2] None ''Lattice'',
                                                Generate_force_constant (Some 0)]\<rparr>)"
proof -
  have a: "self_id ex_alm \<noteq> None" by (simp add: ex_alm_eq)
  have i: "self_id ex_alm = Some 0" by (simp add: ex_alm_eq)
  have n: "define_nbody 1 None = Inr [2]"
    by (simp add: define_nbody_default upto.simps)
  have c: "define_cutoff_radii 1 None = Inr None" by (simp add: define_cutoff_radii_def)
  have v: "np_array_intc [2] = Inr [2]" by (simp add: np_array_intc_def)
  have h: "lower ''Hexagonal'' \<noteq> ''lattice'' \<and> lower ''Hexagonal'' \<noteq> ''cartesian''"
    by (simp add: lower_def)
  have l: "lower ''LATTICE'' = ''lattice''"
    by (simp add: lower_def lower_char_def char_of_nat_eq)
  have k: "lower ''cArTeSiAn'' = ''cartesian''"
    by (simp add: lower_def lower_char_def char_of_nat_eq)
  note t = define_unrecognized_basis_is_lattice [where eng = ex_engine and s = ex_alm
      and ?s1.0 = ex_alm and maxorder = 1 and cutoff_radii = None and nbody = None
      and ?nbody1.0 = "[2]" and ?cr1.0 = None and ?nbody2.0 = "[2]"]
  from t [of "''Hexagonal''"] a ex_alm_transferred n c v h
  have r1: "define_alm ex_engine ex_alm 1 None None ''Hexagonal'' =
       (Inr (), ex_alm\<lparr>self_maxorder := 1,
                       calls := calls ex_alm @ [Define (Some 0) 1 [2] None ''Lattice'',
                                                Generate_force_constant (Some 0)]\<rparr>)"
    by (simp add: i)
  from t [of "''cArTeSiAn''"] a ex_alm_transferred n c v k
  have r2: "define_alm ex_engine ex_alm 1 None None ''cArTeSiAn'' =
       (Inr (), ex_alm\<lparr>self_maxorder := 1,
                       calls := calls ex_alm @ [Define (Some 0) 1 [2] None ''Cartesian'',
                                                Generate_force_constant (Some 0)]\<rparr>)"
    by (simp add: i)
  from t [of "''LATTICE''"] a ex_alm_transferred n c v l
  have r3: "define_alm ex_engine ex_alm 1 None None ''LATTICE'' =
       (Inr (), ex_alm\<lparr>self_maxorder := 1,
                       calls := calls ex_alm @ [Define (Some 0) 1 [2] None ''Lattice'',
                                                Generate_force_constant (Some 0)]\<rparr>)"
    by (simp add: i)
  from a ex_alm_transferred n c v h k l r1 r2 r3 show ?thesis by simp
qed

subsection \<open>The atom map\<close>

lemma length_fill [simp]: "length (data (fill buf out)) = length (data buf)"
  by (simp add: fill_def)

lemma shape_fill [simp]: "shape (fill buf out) = shape buf"
  by (simp add: fill_def)

lemma fill_exact: "length out = length (data buf) \<Longrightarrow> data (fill buf out) = out"
  by (simp add: fill_def)

lemma getmap_primitive_to_supercell_eq:
  assumes "self_id s \<noteq> None" and "py_len (self_xcoord s) = Inr N"
  shows "getmap_primitive_to_supercell eng s =
     (let ntrans = fst (alm_get_atom_mapping_by_pure_translations eng);
          map_p2s = fill \<lparr>shape = [N], data = replicate N 0\<rparr>
                      (snd (alm_get_atom_mapping_by_pure_translations eng));
          s1 = call (Get_atom_mapping_by_pure_translations (self_id s) [N]) s
      in if 0 < ntrans \<and> int N mod ntrans = 0
         then (Inr \<lparr>shape = [nat ntrans, N div nat ntrans], data = data map_p2s\<rparr>, s1)
         else (Inl (ValueError ''cannot reshape array''), s1))"
  using assms
  by (auto simp add: getmap_primitive_to_supercell_def np_zeros_def reshape_rows_def Let_def)

text \<open>
  Claim C9, as stated, fails: an initialized object need not get an array back. After
  the structure was replaced through the setters by one of three atoms, the wrapper
  allocates three entries, the engine (to which nothing was transferred since) still
  reports two pure translations, and the reshaping to two rows raises.
\<close>

theorem getmap_after_setters_counterexample:
  "self_id ex_moved \<noteq> None \<and> py_len (self_xcoord ex_moved) = Inr 3
   \<and> fst (alm_get_atom_mapping_by_pure_translations ex_engine) = 2
   \<and> isl (fst (getmap_primitive_to_supercell ex_engine ex_moved))"
proof -
  have a: "self_id ex_moved \<noteq> None"
    by (simp add: ex_moved_def set_numbers_def set_xcoord_def ex_alm_eq)
  have b: "py_len (self_xcoord ex_moved) = Inr 3"
    by (simp add: ex_moved_def set_numbers_def set_xcoord_def py_len_def ex_xcoord3_def)
  have c: "fst (alm_get_atom_mapping_by_pure_translations ex_engine) = 2"
    by (simp add: ex_engine_def)
  show ?thesis
    using a b c by (simp add: getmap_primitive_to_supercell_eq [OF a b] Let_def)
qed

text \<open>
  Claim C9, amended. On an initialized object whose coordinate array has \<open>N\<close> rows,
  \<open>getmap_primitive_to_supercell\<close> returns an array exactly when the number \<open>ntrans\<close>
  reported by the engine is positive and divides \<open>N\<close>, and raises otherwise; every array
  it returns is two-dimensional of shape \<open>(ntrans, N / ntrans)\<close> and has \<open>N\<close> elements,
  with \<open>ntrans * (N / ntrans) = N\<close>. The only engine call is the query of the map.
\<close>

theorem getmap_primitive_to_supercell_shape:
  assumes "self_id s \<noteq> None" and "py_len (self_xcoord s) = Inr N"
    and "fst (alm_get_atom_mapping_by_pure_translations eng) = ntrans"
  shows "((\<exists>a. fst (getmap_primitive_to_supercell eng s) = Inr a)
            = (0 < ntrans \<and> ntrans dvd int N))
       \<and> (isl (fst (getmap_primitive_to_supercell eng s))
            = (\<not> (0 < ntrans \<and> ntrans dvd int N)))
       \<and> (\<forall>a. fst (getmap_primitive_to_supercell eng s) = Inr a \<longrightarrow>
             shape a = [nat ntrans, N div nat ntrans] \<and> length (data a) = N
             \<and> nat ntrans * (N div nat ntrans) = N \<and> ntrans dvd int N)
       \<and> snd (getmap_primitive_to_supercell eng s)
           = call (Get_atom_mapping_by_pure_translations (self_id s) [N]) s"
proof -
  have d: "nat ntrans * (N div nat ntrans) = N" if "0 < ntrans" and "ntrans dvd int N"
  proof -
    from that have "nat ntrans dvd N"
      by (metis int_dvd_int_iff int_nat_eq less_le_not_le linorder_le_cases)
    then show ?thesis by simp
  qed
  show ?thesis
    using d
    by (auto simp add: getmap_primitive_to_supercell_eq [OF assms(1) assms(2)] assms(3)
        Let_def mod_eq_0_iff_dvd)
qed

theorem getmap_primitive_to_supercell_shape_witness:
  "self_id ex_alm \<noteq> None \<and> py_len (self_xcoord ex_alm) = Inr 2
   \<and> fst (alm_get_atom_mapping_by_pure_translations ex_engine) = 2
   \<and> fst (getmap_primitive_to_supercell ex_engine ex_alm)
       = Inr \<lparr>shape = [2, 1], data = [0, 1]\<rparr>
   \<and> (2 :: int) dvd int 2"
proof -
  have a: "self_id ex_alm \<noteq> None" by (simp add: ex_alm_eq)
  have b: "py_len (self_xcoord ex_alm) = Inr 2"
    by (simp add: ex_alm_eq py_len_def ex_xcoord_def)
  have c: "fst (alm_get_atom_mapping_by_pure_translations ex_engine) = 2"
    by (simp add: ex_engine_def)
  have r: "fst (getmap_primitive_to_supercell ex_engine ex_alm)
             = Inr \<lparr>shape = [2, 1], data = [0, 1]\<rparr>"
    by (simp add: getmap_primitive_to_supercell_eq [OF a b] ex_engine_def fill_def Let_def)
  from getmap_primitive_to_supercell_shape [OF a b c] a b c r
  show ?thesis by simp
qed

subsection \<open>Mode \<open>all\<close> against mode \<open>origin\<close>\<close>

lemma fc_buffers_eq:
  "0 \<le> n \<Longrightarrow> 0 \<le> fc_order + 1 \<Longrightarrow>
   fc_buffers n fc_order =
     Inr (\<lparr>shape = [nat n], data = replicate (nat n) 0\<rparr>,
          \<lparr>shape = [nat n, nat (fc_order + 1)],
           data = replicate (nat n * nat (fc_order + 1)) 0\<rparr>)"
  by (simp add: fc_buffers_def np_zeros_def np_zeros2_def)

lemma length_concat_tuples:
  assumes "\<forall>e\<in>set fcs. length (snd e) = k"
  shows "length (concat (map snd fcs)) = length fcs * k"
  using assms by (induction fcs) simp_all

lemma length_expand_fc: "length (expand_fc ps origin) = length ps * length origin"
  by (induction ps) (simp_all add: expand_fc_def)

lemma tuples_expand_fc:
  assumes "\<forall>e\<in>set origin. length (snd e) = k"
  shows "\<forall>e\<in>set (expand_fc ps origin). length (snd e) = k"
  using assms by (auto simp add: expand_fc_def)

lemma values_expand_fc:
  "map fst (expand_fc ps origin) = expand_values ps (map fst origin)"
  by (induction ps) (simp_all add: expand_fc_def expand_values_def case_prod_unfold comp_def)

lemma indices_expand_fc:
  "concat (map snd (expand_fc ps origin)) = expand_indices ps (concat (map snd origin))"
proof -
  have one: "concat (map (snd \<circ> (\<lambda>(v, idx). (v, map (translate_index p) idx))) origin)
               = map (translate_index p) (concat (map snd origin))" for p
    by (induction origin) (simp_all add: case_prod_unfold)
  show ?thesis
    by (induction ps) (simp_all add: expand_fc_def expand_indices_def one)
qed

lemma length_expand_values: "length (expand_values ps xs) = length ps * length xs"
  by (induction ps) (simp_all add: expand_values_def)

lemma length_expand_indices: "length (expand_indices ps xs) = length ps * length xs"
  by (induction ps) (simp_all add: expand_indices_def)

lemma get_fc_origin_spec:
  assumes "self_id s \<noteq> None" and "1 \<le> fc_order" and "fc_order \<le> self_maxorder s"
    and "\<forall>e\<in>set (fc_origin_set m fc_order). length (snd e) = nat (fc_order + 1)"
  shows "fst (get_fc (spec_engine m eng) s fc_order ''origin'') =
     Inr (\<lparr>shape = [length (fc_origin_set m fc_order)],
            data = map fst (fc_origin_set m fc_order)\<rparr>,
          \<lparr>shape = [length (fc_origin_set m fc_order), nat (fc_order + 1)],
            data = concat (map snd (fc_origin_set m fc_order))\<rparr>)"
proof -
  let ?o = "fc_origin_set m fc_order"
  have k: "int (nat (fc_order + 1)) - 1 = fc_order" using assms(2) by simp
  have l: "length (concat (map snd ?o)) = length ?o * nat (fc_order + 1)"
    by (rule length_concat_tuples [OF assms(4)])
  have b: "fc_buffers (int (length ?o)) fc_order =
     Inr (\<lparr>shape = [length ?o], data = replicate (length ?o) 0\<rparr>,
          \<lparr>shape = [length ?o, nat (fc_order + 1)],
           data = replicate (length ?o * nat (fc_order + 1)) 0\<rparr>)"
    using assms(2) fc_buffers_eq [of "int (length ?o)" fc_order] by simp
  show ?thesis
    using assms(1,2,3)
    by (auto simp add: get_fc_def get_number_of_fc_elements_def spec_engine_def b k l
        fill_def fc_arrays_def Let_def)
qed

lemma get_fc_all_spec:
  assumes "self_id s \<noteq> None" and "1 \<le> fc_order" and "fc_order \<le> self_maxorder s"
    and "py_len (self_xcoord s) = Inr N"
    and "\<forall>e\<in>set (fc_origin_set m fc_order). length (snd e) = nat (fc_order + 1)"
  shows "fst (get_fc (spec_engine m eng) s fc_order ''all'') =
     Inr (\<lparr>shape = [length (pure_translations m) * length (fc_origin_set m fc_order)],
            data = map fst (expand_fc (pure_translations m) (fc_origin_set m fc_order))\<rparr>,
          \<lparr>shape = [length (pure_translations m) * length (fc_origin_set m fc_order),
                     nat (fc_order + 1)],
            data = concat (map snd
                     (expand_fc (pure_translations m) (fc_origin_set m fc_order)))\<rparr>)"
proof -
  let ?o = "fc_origin_set m fc_order"
  let ?ps = "pure_translations m"
  let ?n = "length ?ps * length ?o"
  have k: "int (nat (fc_order + 1)) - 1 = fc_order" using assms(2) by simp
  have l: "length (concat (map snd (expand_fc ?ps ?o))) = ?n * nat (fc_order + 1)"
    using length_concat_tuples [OF tuples_expand_fc [OF assms(5)], of ?ps]
    by (simp add: length_expand_fc)
  have b: "fc_buffers (int (length ?o) * int (length ?ps)) fc_order =
     Inr (\<lparr>shape = [?n], data = replicate ?n 0\<rparr>,
          \<lparr>shape = [?n, nat (fc_order + 1)],
           data = replicate (?n * nat (fc_order + 1)) 0\<rparr>)"
    using assms(2) fc_buffers_eq [of "int (length ?o) * int (length ?ps)" fc_order]
    by (simp add: nat_mult_distrib mult.commute)
  show ?thesis
    using assms(1,2,3)
    by (auto simp add: get_fc_def get_number_of_fc_elements_def spec_engine_def b k l
        fill_def fc_arrays_def Let_def assms(4) np_zeros_def call_def length_expand_fc)
qed

text \<open>
  Claim C8, against the engine modelled from the specification. For an initialized
  object and an order between 1 and \<open>self._maxorder\<close>, both \<open>get_fc(order, "origin")\<close>
  and \<open>get_fc(order, "all")\<close> return, and the arrays of mode \<open>all\<close> are the arrays of
  mode \<open>origin\<close> expanded through every pure translation: the values repeated and the
  flattened indices translated, once per translation. The number of rows in mode \<open>all\<close>
  is \<open>ntrans\<close> times the number of rows in mode \<open>origin\<close>, where \<open>ntrans\<close> is the number
  of translations that the engine reports with the atom map. The buffers that the
  wrapper allocates (\<open>fc_length\<close> and \<open>fc_length * ntrans\<close> rows) are exactly filled.
\<close>

theorem get_fc_all_is_expanded_origin:
  assumes "self_id s \<noteq> None" and "1 \<le> fc_order" and "fc_order \<le> self_maxorder s"
    and "py_len (self_xcoord s) = Inr N"
    and "\<forall>e\<in>set (fc_origin_set m fc_order). length (snd e) = nat (fc_order + 1)"
  shows "\<exists>vo io va ia.
       fst (get_fc (spec_engine m eng) s fc_order ''origin'') = Inr (vo, io)
     \<and> fst (get_fc (spec_engine m eng) s fc_order ''all'') = Inr (va, ia)
     \<and> data va = expand_values (pure_translations m) (data vo)
     \<and> data ia = expand_indices (pure_translations m) (data io)
     \<and> fst (alm_get_atom_mapping_by_pure_translations (spec_engine m eng))
         = int (length (pure_translations m))
     \<and> shape vo = [length (data vo)]
     \<and> shape io = [length (data vo), nat (fc_order + 1)]
     \<and> shape va = [length (pure_translations m) * length (data vo)]
     \<and> shape ia = [length (pure_translations m) * length (data vo), nat (fc_order + 1)]
     \<and> length (data va) = length (pure_translations m) * length (data vo)
     \<and> length (data ia) = length (pure_translations m) * length (data io)"
proof -
  let ?o = "fc_origin_set m fc_order"
  let ?ps = "pure_translations m"
  have n: "fst (alm_get_atom_mapping_by_pure_translations (spec_engine m eng))
         = int (length (pure_translations m))"
    by (simp add: spec_engine_def)
  show ?thesis
    using get_fc_origin_spec [OF assms(1,2,3,5), of eng]
      get_fc_all_spec [OF assms, of eng] n
    by (simp add: values_expand_fc indices_expand_fc length_expand_values
        length_expand_indices)
qed

theorem get_fc_all_is_expanded_origin_witness:
  "self_id ex_alm \<noteq> None \<and> (1 :: int) \<le> 1 \<and> 1 \<le> self_maxorder ex_alm
   \<and> py_len (self_xcoord ex_alm) = Inr 2
   \<and> map (\<lambda>e. length (snd e)) (fc_origin_set ex_tables 1) = [2, 2]
   \<and> fst (get_fc (spec_engine ex_tables ex_engine) ex_alm 1 ''origin'')
       = Inr (\<lparr>shape = [2], data = [- 5 / 2, 1]\<rparr>,
              \<lparr>shape = [2, 2], data = [0, 0, 0, 3]\<rparr>)
   \<and> fst (get_fc (spec_engine ex_tables ex_engine) ex_alm 1 ''all'')
       = Inr (\<lparr>shape = [4], data = [- 5 / 2, 1, - 5 / 2, 1]\<rparr>,
              \<lparr>shape = [4, 2], data = [0, 0, 0, 3, 3, 3, 3, 0]\<rparr>)"
proof -
  have a: "self_id ex_alm \<noteq> None" by (simp add: ex_alm_eq)
  have b: "(1 :: int) \<le> 1" by simp
  have c: "1 \<le> self_maxorder ex_alm" by (simp add: ex_alm_eq)
  have d: "py_len (self_xcoord ex_alm) = Inr 2"
    by (simp add: ex_alm_eq py_len_def ex_xcoord_def)
  have e: "\<forall>e\<in>set (fc_origin_set ex_tables 1). length (snd e) = nat (1 + 1)"
    by (simp add: ex_tables_def)
  have p: "pure_translations ex_tables = [\<lambda>a. a, \<lambda>a. (a + 1) mod 2]"
    by (simp add: ex_tables_def)
  from get_fc_all_is_expanded_origin [OF a b c d e, of ex_engine]
  obtain vo io va ia where
    o: "fst (get_fc (spec_engine ex_tables ex_engine) ex_alm 1 ''origin'') = Inr (vo, io)"
    and al: "fst (get_fc (spec_engine ex_tables ex_engine) ex_alm 1 ''all'') = Inr (va, ia)"
    and dv: "data va = expand_values (pure_translations ex_tables) (data vo)"
    and di: "data ia = expand_indices (pure_translations ex_tables) (data io)"
    and sv: "shape va = [length (pure_translations ex_tables) * length (data vo)]"
    and si: "shape ia = [length (pure_translations ex_tables) * length (data vo), nat (1 + 1)]"
    by blast
  have o': "fst (get_fc (spec_engine ex_tables ex_engine) ex_alm 1 ''origin'')
       = Inr (\<lparr>shape = [2], data = [- 5 / 2, 1]\<rparr>,
              \<lparr>shape = [2, 2], data = [0, 0, 0, 3]\<rparr>)"
    using get_fc_origin_spec [OF a b c e, of ex_engine] by (simp add: ex_tables_def)
  from o o' have vo: "vo = \<lparr>shape = [2], data = [- 5 / 2, 1]\<rparr>"
    and io: "io = \<lparr>shape = [2, 2], data = [0, 0, 0, 3]\<rparr>" by simp_all
  have "va = \<lparr>shape = [4], data = [- 5 / 2, 1, - 5 / 2, 1]\<rparr>"
    using dv sv by (simp add: vo p expand_values_def)
  moreover have "ia = \<lparr>shape = [4, 2], data = [0, 0, 0, 3, 3, 3, 3, 0]\<rparr>"
    using di si by (simp add: vo io p expand_indices_def translate_index_def)
  moreover have "map (\<lambda>e. length (snd e)) (fc_origin_set ex_tables 1) = [2, 2]"
    by (simp add: ex_tables_def)
  ultimately show ?thesis
    using a b c d o' al by simp
qed

text \<open>
  The atom map that the wrapper returns over the same tables: one row per translation,
  the images of the atoms of the primitive cell.
\<close>

lemma getmap_spec_engine:
  assumes "self_id s \<noteq> None"
    and "py_len (self_xcoord s) = Inr (length (pure_translations m) * length (primitive_atoms m))"
    and "pure_translations m \<noteq> []"
  shows "fst (getmap_primitive_to_supercell (spec_engine m eng) s) =
     Inr \<lparr>shape = [length (pure_translations m), length (primitive_atoms m)],
          data = concat (map (\<lambda>p. map p (primitive_atoms m)) (pure_translations m))\<rparr>"
proof -
  have l: "length (concat (map (\<lambda>p. map p xs) ps)) = length ps * length xs" for ps xs
    by (induction ps) simp_all
  show ?thesis
    using assms(3)
    by (simp add: getmap_primitive_to_supercell_eq [OF assms(1) assms(2)] spec_engine_def
        Let_def fill_def l)
qed

end
